theory Spec2Isabelle
  imports Complex_Main "HOL-Library.Multiset"
begin

section \<open>Data model\<close>

text \<open>
  Python exceptions are values.  \<open>QueueBlocked\<close> stands for \<^verbatim>\<open>Queue.get()\<close> on an empty
  queue (the call never returns), \<open>OutOfFuel\<close> for a recursion the model cut off.  A use of
  \<^verbatim>\<open>None\<close> as an object is \<open>AttributeError\<close>.
\<close>

datatype error =
  Exception | IndexError | ValueError | NameError | AttributeError | KeyError
  | NotImplementedError | ZeroDivisionError | OverflowError | QueueBlocked | OutOfFuel

text \<open>
  \<^verbatim>\<open>datetime\<close> instants and \<^verbatim>\<open>timedelta\<close> durations are integers on one time axis;
  \<^verbatim>\<open>timedelta.max\<close>, the unbounded window, is a value of its own.
\<close>

datatype timedelta = Timedelta int | TimedeltaMax

type_synonym payload = "(string \<times> rat) list"

text \<open>
  Modelled from the spec: \<^verbatim>\<open>base/Event.py\<close> is not among the sources.  An event carries its
  type, its timestamp and its payload.
\<close>

record Event =
  event_type :: string
  timestamp :: int
  payload :: payload

text \<open>
  Modelled from the spec: \<^verbatim>\<open>evaluation/PartialMatch.py\<close> is not among the sources.  A partial
  match is built from a non-empty event list and stores the earliest and the latest timestamp
  of its events.  Python compares partial matches by object identity (the class defines no
  equality), so every object carries the identity \<open>pm_id\<close> it was allocated with.
\<close>

record PartialMatch =
  pm_id :: nat
  events :: "Event list"
  first_timestamp :: int
  last_timestamp :: int

definition PartialMatch_init :: "nat \<Rightarrow> Event list \<Rightarrow> error + PartialMatch" where
  "PartialMatch_init oid evs =
     (if evs = [] then Inl ValueError
      else Inr \<lparr>pm_id = oid, events = evs,
                first_timestamp = Min (set (map timestamp evs)),
                last_timestamp = Max (set (map timestamp evs))\<rparr>)"

text \<open>
  Modelled from the spec: \<^verbatim>\<open>base/PatternStructure.py\<close> is not among the sources.  A
  placeholder (QItem) has an event type, a name and its position in the source pattern.
\<close>

record QItem =
  q_event_type :: string
  q_name :: string
  q_index :: int

type_synonym event_def = "int \<times> QItem"

datatype operator = SeqOperator | AndOperator | OrOperator

subsection \<open>Python list primitives\<close>

definition py_index :: "'a list \<Rightarrow> int \<Rightarrow> error + 'a" where
  "py_index xs i =
     (if 0 \<le> i \<and> i < int (length xs) then Inr (xs ! nat i)
      else if i < 0 \<and> - int (length xs) \<le> i then Inr (xs ! nat (int (length xs) + i))
      else Inl IndexError)"

definition slice_from :: "'a list \<Rightarrow> int \<Rightarrow> 'a list" where
  "slice_from xs i =
     (if 0 \<le> i then drop (nat i) xs else drop (nat (max 0 (int (length xs) + i))) xs)"

definition slice_to :: "'a list \<Rightarrow> int \<Rightarrow> 'a list" where
  "slice_to xs i =
     (if 0 \<le> i then take (nat i) xs else take (nat (max 0 (int (length xs) + i))) xs)"

definition list_insert :: "'a list \<Rightarrow> int \<Rightarrow> 'a \<Rightarrow> 'a list" where
  "list_insert xs i x = slice_to xs i @ x # slice_from xs i"

section \<open>misc/Utils.py\<close>

subsection \<open>find_partial_match_by_timestamp\<close>

function find_loop :: "PartialMatch list \<Rightarrow> int \<Rightarrow> int \<Rightarrow> int \<Rightarrow> error + int" where
  "find_loop partial_matches ts start end' =
     (if start \<le> end' then
        (let mid = (start + end') div 2 in
         case py_index partial_matches mid of
           Inl e \<Rightarrow> Inl e
         | Inr pm_mid \<Rightarrow>
             (let mid_date = first_timestamp pm_mid in
              case py_index partial_matches (mid - 1) of
                Inl e \<Rightarrow> Inl e
              | Inr pm_prev \<Rightarrow>
                  if first_timestamp pm_prev < ts \<and> ts \<le> mid_date then Inr mid
                  else if ts > mid_date then find_loop partial_matches ts (mid + 1) end'
                  else find_loop partial_matches ts start (mid - 1)))
      else Inl Exception)"
  by pat_completeness auto
termination
  by (relation "measure (\<lambda>(pms, ts, start, end'). nat (end' - start + 1))") auto

declare find_loop.simps [simp del]

definition find_partial_match_by_timestamp :: "PartialMatch list \<Rightarrow> int \<Rightarrow> error + int" where
  "find_partial_match_by_timestamp partial_matches ts =
     (let length' = int (length partial_matches) in
      if length' = 0 \<or> first_timestamp (hd partial_matches) \<ge> ts then Inr 0
      else if length' = 1 then Inr 1
      else if first_timestamp (last partial_matches) < ts then Inr length'
      else find_loop partial_matches ts 0 (length' - 1))"

subsection \<open>merge and merge_according_to\<close>

function merge_main_loop ::
  "'a list \<Rightarrow> 'a list \<Rightarrow> ('a \<Rightarrow> 'k::linorder) \<Rightarrow> nat \<Rightarrow> nat \<Rightarrow> nat \<Rightarrow> nat \<Rightarrow> 'a list
     \<Rightarrow> nat \<times> nat \<times> nat \<times> 'a list" where
  "merge_main_loop arr1 arr2 key new_len i i1 i2 ret =
     (if i < new_len \<and> i1 < length arr1 \<and> i2 < length arr2 then
        (if key (arr1 ! i1) < key (arr2 ! i2)
         then merge_main_loop arr1 arr2 key new_len (i + 1) (i1 + 1) i2 (ret @ [arr1 ! i1])
         else merge_main_loop arr1 arr2 key new_len (i + 1) i1 (i2 + 1) (ret @ [arr2 ! i2]))
      else (i, i1, i2, ret))"
  by pat_completeness auto
termination
  by (relation "measure (\<lambda>(arr1, arr2, key, new_len, i, i1, i2, ret).
        (length arr1 - i1) + (length arr2 - i2))") auto

declare merge_main_loop.simps [simp del]

function append_rest_loop :: "nat \<Rightarrow> 'a list \<Rightarrow> nat \<Rightarrow> 'a list \<Rightarrow> 'a list" where
  "append_rest_loop len actual j ret =
     (if j < len then append_rest_loop len actual (j + 1) (ret @ [actual ! j]) else ret)"
  by pat_completeness auto
termination
  by (relation "measure (\<lambda>(len, actual, j, ret). len - j)") auto

declare append_rest_loop.simps [simp del]

definition merge :: "'a list \<Rightarrow> 'a list \<Rightarrow> ('a \<Rightarrow> 'k::linorder) \<Rightarrow> 'a list" where
  "merge arr1 arr2 key =
     (let new_len = length arr1 + length arr2;
          (i, i1, i2, ret) = merge_main_loop arr1 arr2 key new_len 0 0 0 [];
          ret = append_rest_loop (length arr1) arr1 i1 ret;
          ret = append_rest_loop (length arr2) arr2 i2 ret
      in ret)"

function merge_according_to_main_loop ::
  "'a list \<Rightarrow> 'a list \<Rightarrow> 'b list \<Rightarrow> 'b list \<Rightarrow> ('a \<Rightarrow> 'k::linorder)
     \<Rightarrow> nat \<Rightarrow> nat \<Rightarrow> nat \<Rightarrow> nat \<Rightarrow> 'b list \<Rightarrow> nat \<times> nat \<times> nat \<times> 'b list" where
  "merge_according_to_main_loop arr1 arr2 actual1 actual2 key new_len i i1 i2 ret =
     (if i < new_len \<and> i1 < length arr1 \<and> i2 < length arr2 then
        (if key (arr1 ! i1) < key (arr2 ! i2)
         then merge_according_to_main_loop arr1 arr2 actual1 actual2 key new_len
                (i + 1) (i1 + 1) i2 (ret @ [actual1 ! i1])
         else merge_according_to_main_loop arr1 arr2 actual1 actual2 key new_len
                (i + 1) i1 (i2 + 1) (ret @ [actual2 ! i2]))
      else (i, i1, i2, ret))"
  by pat_completeness auto
termination
  by (relation "measure (\<lambda>(arr1, arr2, actual1, actual2, key, new_len, i, i1, i2, ret).
        (length arr1 - i1) + (length arr2 - i2))") auto

declare merge_according_to_main_loop.simps [simp del]

definition merge_according_to ::
  "'a list \<Rightarrow> 'a list \<Rightarrow> 'b list \<Rightarrow> 'b list \<Rightarrow> ('a \<Rightarrow> 'k::linorder) \<Rightarrow> error + 'b list" where
  "merge_according_to arr1 arr2 actual1 actual2 key =
     (if length arr1 \<noteq> length actual1 \<or> length arr2 \<noteq> length actual2 then Inl Exception
      else
        (let new_len = length arr1 + length arr2;
             (i, i1, i2, ret) =
                merge_according_to_main_loop arr1 arr2 actual1 actual2 key new_len 0 0 0 [];
             ret = append_rest_loop (length arr1) actual1 i1 ret;
             ret = append_rest_loop (length arr2) actual2 i2 ret
         in Inr ret))"

subsection \<open>is_sorted\<close>

fun is_sorted_loop :: "'a list \<Rightarrow> ('a \<Rightarrow> 'k::linorder) \<Rightarrow> nat list \<Rightarrow> bool" where
  "is_sorted_loop arr key [] = True"
| "is_sorted_loop arr key (i # rest) =
     (if key (arr ! i) > key (arr ! (i + 1)) then False else is_sorted_loop arr key rest)"

definition is_sorted :: "'a list \<Rightarrow> ('a \<Rightarrow> 'k::linorder) \<Rightarrow> bool" where
  "is_sorted arr key =
     (if length arr = 0 then True else is_sorted_loop arr key [0 ..< length arr - 1])"

section \<open>base/Formula.py\<close>

text \<open>
  Terms evaluate to numbers (rationals, so that the true division of \<^verbatim>\<open>DivTerm\<close> is exact).
  The \<^verbatim>\<open>getattr_func\<close> of an identifier term is any function of the payload and may raise.
  A binding is the dictionary from names to payloads.
\<close>

type_synonym binding = "string \<rightharpoonup> payload"

datatype Term =
    AtomicTerm rat
  | IdentifierTerm string "payload \<Rightarrow> error + rat"
  | PlusTerm Term Term
  | MinusTerm Term Term
  | MulTerm Term Term
  | DivTerm Term Term

fun binary_operation ::
  "(rat \<Rightarrow> rat \<Rightarrow> error + rat) \<Rightarrow> error + rat \<Rightarrow> error + rat \<Rightarrow> error + rat" where
  "binary_operation binary_op (Inl e) r = Inl e"
| "binary_operation binary_op (Inr x) (Inl e) = Inl e"
| "binary_operation binary_op (Inr x) (Inr y) = binary_op x y"

fun Term_eval :: "Term \<Rightarrow> binding \<Rightarrow> error + rat" where
  "Term_eval (AtomicTerm v) b = Inr v"
| "Term_eval (IdentifierTerm name getattr_func) b =
     (case b name of None \<Rightarrow> Inl NameError | Some p \<Rightarrow> getattr_func p)"
| "Term_eval (PlusTerm lhs rhs) b =
     binary_operation (\<lambda>x y. Inr (x + y)) (Term_eval lhs b) (Term_eval rhs b)"
| "Term_eval (MinusTerm lhs rhs) b =
     binary_operation (\<lambda>x y. Inr (x - y)) (Term_eval lhs b) (Term_eval rhs b)"
| "Term_eval (MulTerm lhs rhs) b =
     binary_operation (\<lambda>x y. Inr (x * y)) (Term_eval lhs b) (Term_eval rhs b)"
| "Term_eval (DivTerm lhs rhs) b =
     binary_operation (\<lambda>x y. if y = 0 then Inl ZeroDivisionError else Inr (x / y))
       (Term_eval lhs b) (Term_eval rhs b)"

text \<open>
  The \<^verbatim>\<open>names\<close> argument of \<^verbatim>\<open>get_term_of\<close> and \<^verbatim>\<open>get_formula_of\<close> is a set of names
  when an internal node projects the condition, and a single string when a leaf does
  (\<^verbatim>\<open>formula.get_formula_of(self.__event_name)\<close>); \<^verbatim>\<open>name in names\<close> is then Python's
  substring test.
\<close>

datatype names = NameSet "string set" | NameStr string

fun is_substring :: "string \<Rightarrow> string \<Rightarrow> bool" where
  "is_substring xs [] = (xs = [])"
| "is_substring xs (y # ys) = (take (length xs) (y # ys) = xs \<or> is_substring xs ys)"

fun name_in :: "string \<Rightarrow> names \<Rightarrow> bool" where
  "name_in name (NameSet S) = (name \<in> S)"
| "name_in name (NameStr str) = is_substring name str"

fun get_term_of :: "Term \<Rightarrow> names \<Rightarrow> Term option" where
  "get_term_of (AtomicTerm v) ns = Some (AtomicTerm v)"
| "get_term_of (IdentifierTerm name getattr_func) ns =
     (if name_in name ns then Some (IdentifierTerm name getattr_func) else None)"
| "get_term_of (PlusTerm lhs rhs) ns =
     (case (get_term_of lhs ns, get_term_of rhs ns) of
        (Some l, Some r) \<Rightarrow> Some (PlusTerm l r) | _ \<Rightarrow> None)"
| "get_term_of (MinusTerm lhs rhs) ns =
     (case (get_term_of lhs ns, get_term_of rhs ns) of
        (Some l, Some r) \<Rightarrow> Some (MinusTerm l r) | _ \<Rightarrow> None)"
| "get_term_of (MulTerm lhs rhs) ns =
     (case (get_term_of lhs ns, get_term_of rhs ns) of
        (Some l, Some r) \<Rightarrow> Some (MulTerm l r) | _ \<Rightarrow> None)"
| "get_term_of (DivTerm lhs rhs) ns =
     (case (get_term_of lhs ns, get_term_of rhs ns) of
        (Some l, Some r) \<Rightarrow> Some (DivTerm l r) | _ \<Rightarrow> None)"

text \<open>
  The six atomic formula classes differ in their relation only; \<open>AtomicFormula\<close> carries it
  as a tag, and the class names are abbreviations.
\<close>

datatype relation_op = Eq | NotEq | GreaterThan | SmallerThan | GreaterThanEq | SmallerThanEq

datatype Formula =
    AtomicFormula relation_op Term Term
  | AndFormula Formula Formula
  | TrueFormula

abbreviation "EqFormula \<equiv> AtomicFormula Eq"
abbreviation "NotEqFormula \<equiv> AtomicFormula NotEq"
abbreviation "GreaterThanFormula \<equiv> AtomicFormula GreaterThan"
abbreviation "SmallerThanFormula \<equiv> AtomicFormula SmallerThan"
abbreviation "GreaterThanEqFormula \<equiv> AtomicFormula GreaterThanEq"
abbreviation "SmallerThanEqFormula \<equiv> AtomicFormula SmallerThanEq"

fun relation :: "relation_op \<Rightarrow> rat \<Rightarrow> rat \<Rightarrow> bool" where
  "relation Eq x y = (x = y)"
| "relation NotEq x y = (x \<noteq> y)"
| "relation GreaterThan x y = (x > y)"
| "relation SmallerThan x y = (x < y)"
| "relation GreaterThanEq x y = (x \<ge> y)"
| "relation SmallerThanEq x y = (x \<le> y)"

fun Formula_eval :: "Formula \<Rightarrow> binding \<Rightarrow> error + bool" where
  "Formula_eval (AtomicFormula rel left_term right_term) b =
     (case Term_eval left_term b of
        Inl e \<Rightarrow> Inl e
      | Inr x \<Rightarrow> (case Term_eval right_term b of
                    Inl e \<Rightarrow> Inl e
                  | Inr y \<Rightarrow> Inr (relation rel x y)))"
| "Formula_eval (AndFormula left_formula right_formula) b =
     (case Formula_eval left_formula b of
        Inl e \<Rightarrow> Inl e
      | Inr x \<Rightarrow> (case Formula_eval right_formula b of
                    Inl e \<Rightarrow> Inl e
                  | Inr y \<Rightarrow> Inr (x \<and> y)))"
| "Formula_eval TrueFormula b = Inr True"

fun get_formula_of :: "Formula \<Rightarrow> names \<Rightarrow> Formula option" where
  "get_formula_of (AtomicFormula rel left_term right_term) ns =
     (case (get_term_of right_term ns, get_term_of left_term ns) of
        (Some r, Some l) \<Rightarrow> Some (AtomicFormula rel l r) | _ \<Rightarrow> None)"
| "get_formula_of (AndFormula left_formula right_formula) ns =
     (case (get_formula_of left_formula ns, get_formula_of right_formula ns) of
        (Some l, Some r) \<Rightarrow> Some (AndFormula l r)
      | (Some l, None) \<Rightarrow> Some l
      | (None, Some r) \<Rightarrow> Some r
      | (None, None) \<Rightarrow> None)"
| "get_formula_of TrueFormula ns = None"

fun is_IdentifierTerm :: "Term \<Rightarrow> bool" where
  "is_IdentifierTerm (IdentifierTerm name getattr_func) = True"
| "is_IdentifierTerm t = False"

fun term_name :: "Term \<Rightarrow> string" where
  "term_name (IdentifierTerm name getattr_func) = name"
| "term_name t = []"

text \<open>
  \<^verbatim>\<open>TrueFormula\<close> defines no \<^verbatim>\<open>get_events_in_a_condition_with\<close>: calling it raises
  \<^verbatim>\<open>AttributeError\<close>.
\<close>

fun get_events_in_a_condition_with :: "Formula \<Rightarrow> string \<Rightarrow> error + Formula option" where
  "get_events_in_a_condition_with (AtomicFormula rel left_term right_term) name =
     (if \<not> is_IdentifierTerm left_term \<or> \<not> is_IdentifierTerm right_term then Inr None
      else if term_name left_term = name then Inr (Some (AtomicFormula rel left_term right_term))
      else if term_name right_term = name then Inr (Some (AtomicFormula rel left_term right_term))
      else Inr None)"
| "get_events_in_a_condition_with (AndFormula left_formula right_formula) name =
     (case get_events_in_a_condition_with right_formula name of
        Inl e \<Rightarrow> Inl e
      | Inr r \<Rightarrow>
          (case get_events_in_a_condition_with left_formula name of
             Inl e \<Rightarrow> Inl e
           | Inr l \<Rightarrow>
               (case (l, r) of
                  (Some lf, Some rf) \<Rightarrow> Inr (Some (AndFormula lf rf))
                | (Some lf, None) \<Rightarrow> Inr (Some lf)
                | (None, Some rf) \<Rightarrow> Inr (Some rf)
                | (None, None) \<Rightarrow> Inr None)))"
| "get_events_in_a_condition_with TrueFormula name = Inl AttributeError"

fun get_all_terms :: "Formula \<Rightarrow> string set \<Rightarrow> string set" where
  "get_all_terms (AtomicFormula rel left_term right_term) term_set =
     (let term_set = (if is_IdentifierTerm left_term
                      then insert (term_name left_term) term_set else term_set)
      in if is_IdentifierTerm right_term
         then insert (term_name right_term) term_set else term_set)"
| "get_all_terms (AndFormula left_formula right_formula) term_set =
     get_all_terms right_formula (get_all_terms left_formula term_set)"
| "get_all_terms TrueFormula term_set = term_set"

section \<open>evaluation/TreeBasedEvaluationMechanism.py: the nodes\<close>

text \<open>
  The objects of the evaluation tree live in a store indexed by natural numbers; a reference
  to a node (\<^verbatim>\<open>_parent\<close>, \<^verbatim>\<open>_left_subtree\<close>, \<^verbatim>\<open>_right_subtree\<close>) is an index or \<open>None\<close>.
  One record holds the fields of all five classes, \<open>node_class\<close> is \<^verbatim>\<open>type(self)\<close>.  The
  \<^verbatim>\<open>threshold\<close> is \<open>None\<close> for the integer \<^verbatim>\<open>0\<close> and \<open>Some t\<close> for an instant.  The queue
  \<^verbatim>\<open>_unhandled_partial_matches\<close> is a list, put at the end and got from the front.
\<close>

datatype node_class = LeafNode | AndNode | SeqNode | FirstChanceNode | PostProcessingNode

record Node =
  node_class :: node_class
  parent :: "nat option"
  sliding_window :: timedelta
  partial_matches :: "PartialMatch list"
  condition :: Formula
  unhandled_partial_matches :: "PartialMatch list"
  leaf_index :: int
  leaf_event_name :: string
  leaf_event_type :: string
  qitem_index :: int
  event_defs :: "event_def list"
  left_subtree :: "nat option"
  right_subtree :: "nat option"
  threshold :: "int option"
  is_first :: bool
  is_last :: bool
  top_operator :: operator
  waiting_for_time_out :: "PartialMatch list"
  matches_to_handle_at_EOF :: "PartialMatch list"
  check_expired_timestamp :: "(int \<times> PartialMatch) list"

text \<open>
  The constructors.  The fields of the subclasses a node does not belong to keep the values
  given here and are never read; \<^verbatim>\<open>event_defs = None\<close> is the empty list.
\<close>

definition Node_init :: "node_class \<Rightarrow> timedelta \<Rightarrow> nat option \<Rightarrow> Node" where
  "Node_init cls window par =
     \<lparr>node_class = cls, parent = par, sliding_window = window, partial_matches = [],
      condition = TrueFormula, unhandled_partial_matches = [],
      leaf_index = 0, leaf_event_name = [], leaf_event_type = [], qitem_index = 0,
      event_defs = [], left_subtree = None, right_subtree = None, threshold = None,
      is_first = False, is_last = False, top_operator = SeqOperator,
      waiting_for_time_out = [], matches_to_handle_at_EOF = [], check_expired_timestamp = []\<rparr>"

definition LeafNode_init :: "timedelta \<Rightarrow> int \<Rightarrow> QItem \<Rightarrow> nat option \<Rightarrow> Node" where
  "LeafNode_init window index leaf_qitem par =
     (Node_init LeafNode window par)
       \<lparr>leaf_index := index, leaf_event_name := q_name leaf_qitem,
        leaf_event_type := q_event_type leaf_qitem, qitem_index := q_index leaf_qitem\<rparr>"

definition InternalNode_init :: "node_class \<Rightarrow> timedelta \<Rightarrow> nat option \<Rightarrow> Node" where
  "InternalNode_init cls window par = Node_init cls window par"

definition InternalNegationNode_init ::
  "node_class \<Rightarrow> timedelta \<Rightarrow> bool \<Rightarrow> bool \<Rightarrow> operator \<Rightarrow> Node" where
  "InternalNegationNode_init cls window first' last' top_op =
     (InternalNode_init cls window None)
       \<lparr>is_first := first', is_last := last', top_operator := top_op\<rparr>"

subsection \<open>The partial-match store of one node\<close>

definition consume_first_partial_match :: "Node \<Rightarrow> error + PartialMatch \<times> Node" where
  "consume_first_partial_match n =
     (case partial_matches n of
        [] \<Rightarrow> Inl IndexError
      | ret # rest \<Rightarrow> Inr (ret, n\<lparr>partial_matches := rest\<rparr>))"

definition has_partial_matches :: "Node \<Rightarrow> bool" where
  "has_partial_matches n = (length (partial_matches n) > 0)"

definition get_last_unhandled_partial_match :: "Node \<Rightarrow> error + PartialMatch \<times> Node" where
  "get_last_unhandled_partial_match n =
     (case unhandled_partial_matches n of
        [] \<Rightarrow> Inl QueueBlocked
      | pm # rest \<Rightarrow> Inr (pm, n\<lparr>unhandled_partial_matches := rest\<rparr>))"

text \<open>
  Lines 73 and 74 of \<^verbatim>\<open>clean_expired_partial_matches\<close> (and 115 to 117, on another node):
  the prefix found by the binary search is cut off.
\<close>

definition drop_expired :: "Node \<Rightarrow> int \<Rightarrow> int \<Rightarrow> error + Node" where
  "drop_expired n last_ts w =
     (case find_partial_match_by_timestamp (partial_matches n) (last_ts - w) of
        Inl e \<Rightarrow> Inl e
      | Inr cnt \<Rightarrow> Inr (n\<lparr>partial_matches := slice_from (partial_matches n) cnt\<rparr>))"

definition add_partial_match :: "Node \<Rightarrow> PartialMatch \<Rightarrow> error + Node" where
  "add_partial_match n pm =
     (case find_partial_match_by_timestamp (partial_matches n) (first_timestamp pm) of
        Inl e \<Rightarrow> Inl e
      | Inr index \<Rightarrow>
          (let n = n\<lparr>partial_matches := list_insert (partial_matches n) index pm\<rparr>
           in if parent n \<noteq> None
              then Inr (n\<lparr>unhandled_partial_matches := unhandled_partial_matches n @ [pm]\<rparr>)
              else Inr n))"

definition remove_partial_matches :: "Node \<Rightarrow> PartialMatch list \<Rightarrow> Node" where
  "remove_partial_matches n matches_to_remove =
     n\<lparr>partial_matches := filter (\<lambda>match. match \<notin> set matches_to_remove) (partial_matches n)\<rparr>"




section \<open>evaluation/TreeBasedEvaluationMechanism.py: the tree as a store of nodes\<close>

text \<open>
  The state of the engine: the store of node objects, the reference \<^verbatim>\<open>Tree.__root\<close>, and the
  identity the next \<^verbatim>\<open>PartialMatch\<close> object will get.
\<close>

record Tree =
  nodes :: "Node list"
  root :: nat
  next_pm_id :: nat

fun bind_err :: "error + 'a \<Rightarrow> ('a \<Rightarrow> error + 'b) \<Rightarrow> error + 'b" where
  "bind_err (Inl e) f = Inl e"
| "bind_err (Inr x) f = f x"

definition get_node :: "Tree \<Rightarrow> nat \<Rightarrow> error + Node" where
  "get_node s i = (if i < length (nodes s) then Inr (nodes s ! i) else Inl AttributeError)"

definition set_node :: "Tree \<Rightarrow> nat \<Rightarrow> Node \<Rightarrow> Tree" where
  "set_node s i n = s\<lparr>nodes := (nodes s)[i := n]\<rparr>"

definition deref :: "nat option \<Rightarrow> error + nat" where
  "deref r = (case r of None \<Rightarrow> Inl AttributeError | Some i \<Rightarrow> Inr i)"

definition is_negation_node :: "Node \<Rightarrow> bool" where
  "is_negation_node n =
     (node_class n = PostProcessingNode \<or> node_class n = FirstChanceNode)"

text \<open>
  Modelled from the spec: \<^verbatim>\<open>PartialMatch(events)\<close> allocates a new object; the state hands
  out its identity.
\<close>

definition new_PartialMatch :: "Tree \<Rightarrow> Event list \<Rightarrow> error + PartialMatch \<times> Tree" where
  "new_PartialMatch s evs =
     bind_err (PartialMatch_init (next_pm_id s) evs)
       (\<lambda>pm. Inr (pm, s\<lparr>next_pm_id := Suc (next_pm_id s)\<rparr>))"

subsection \<open>Walks over the tree\<close>

text \<open>
  The walks follow references.  In a store of \<open>k\<close> nodes a walk that takes more than \<open>k\<close>
  steps is inside a cycle and never returns; the walks are therefore run with the size of
  the store as their bound and \<open>OutOfFuel\<close> stands for the walk that does not end.
\<close>

fun get_root_walk :: "nat \<Rightarrow> Tree \<Rightarrow> nat \<Rightarrow> error + nat" where
  "get_root_walk 0 s self = Inl OutOfFuel"
| "get_root_walk (Suc fuel) s self =
     (case get_node s self of
        Inl e \<Rightarrow> Inl e
      | Inr n \<Rightarrow> (case parent n of None \<Rightarrow> Inr self | Some p \<Rightarrow> get_root_walk fuel s p))"

definition get_root :: "Tree \<Rightarrow> nat \<Rightarrow> error + nat" where
  "get_root s self = get_root_walk (length (nodes s)) s self"

fun get_first_FCNodes_walk :: "nat \<Rightarrow> Tree \<Rightarrow> nat \<Rightarrow> error + nat list" where
  "get_first_FCNodes_walk 0 s self = Inl OutOfFuel"
| "get_first_FCNodes_walk (Suc fuel) s self =
     (case get_node s self of
        Inl e \<Rightarrow> Inl e
      | Inr n \<Rightarrow>
          if node_class n = LeafNode then Inr []
          else if node_class n = FirstChanceNode then Inr (if is_first n then [self] else [])
          else
            (case (case left_subtree n of
                     None \<Rightarrow> Inl AttributeError
                   | Some l \<Rightarrow>
                       (case get_node s l of
                          Inl e \<Rightarrow> Inl e
                        | Inr lnode \<Rightarrow> if node_class lnode \<noteq> LeafNode
                                    then get_first_FCNodes_walk fuel s l else Inr [])) of
               Inl e \<Rightarrow> Inl e
             | Inr result_left \<Rightarrow>
                 (case (case right_subtree n of
                          None \<Rightarrow> Inl AttributeError
                        | Some r \<Rightarrow>
                            (case get_node s r of
                               Inl e \<Rightarrow> Inl e
                             | Inr rnode \<Rightarrow> if node_class rnode \<noteq> LeafNode
                                         then get_first_FCNodes_walk fuel s r else Inr [])) of
                    Inl e \<Rightarrow> Inl e
                  | Inr result_right \<Rightarrow> Inr (result_left @ result_right))))"

definition get_first_FCNodes :: "Tree \<Rightarrow> nat \<Rightarrow> error + nat list" where
  "get_first_FCNodes s self = get_first_FCNodes_walk (length (nodes s)) s self"

fun get_leaves_walk :: "nat \<Rightarrow> Tree \<Rightarrow> nat \<Rightarrow> error + nat list" where
  "get_leaves_walk 0 s self = Inl OutOfFuel"
| "get_leaves_walk (Suc fuel) s self =
     (case get_node s self of
        Inl e \<Rightarrow> Inl e
      | Inr n \<Rightarrow>
          if node_class n = LeafNode then Inr [self]
          else
            (case (case left_subtree n of
                     None \<Rightarrow> Inr [] | Some l \<Rightarrow> get_leaves_walk fuel s l) of
               Inl e \<Rightarrow> Inl e
             | Inr result_left \<Rightarrow>
                 (case (case right_subtree n of
                          None \<Rightarrow> Inr [] | Some r \<Rightarrow> get_leaves_walk fuel s r) of
                    Inl e \<Rightarrow> Inl e
                  | Inr result_right \<Rightarrow> Inr (result_left @ result_right))))"

definition get_leaves :: "Tree \<Rightarrow> nat \<Rightarrow> error + nat list" where
  "get_leaves s self = get_leaves_walk (length (nodes s)) s self"

fun get_event_definitions_walk :: "nat \<Rightarrow> Tree \<Rightarrow> nat \<Rightarrow> error + event_def list" where
  "get_event_definitions_walk 0 s self = Inl OutOfFuel"
| "get_event_definitions_walk (Suc fuel) s self =
     (case get_node s self of
        Inl e \<Rightarrow> Inl e
      | Inr n \<Rightarrow>
          if node_class n = LeafNode
          then Inr [(leaf_index n, \<lparr>q_event_type = leaf_event_type n, q_name = leaf_event_name n,
                                    q_index = qitem_index n\<rparr>)]
          else if is_negation_node n
          then (case left_subtree n of
                  None \<Rightarrow> Inl AttributeError
                | Some l \<Rightarrow> get_event_definitions_walk fuel s l)
          else Inr (event_defs n))"

definition get_event_definitions :: "Tree \<Rightarrow> nat \<Rightarrow> error + event_def list" where
  "get_event_definitions s self = get_event_definitions_walk (length (nodes s)) s self"

fun get_first_last_negative_node_walk :: "nat \<Rightarrow> Tree \<Rightarrow> nat \<Rightarrow> error + nat" where
  "get_first_last_negative_node_walk 0 s self = Inl OutOfFuel"
| "get_first_last_negative_node_walk (Suc fuel) s self =
     (case get_node s self of
        Inl e \<Rightarrow> Inl e
      | Inr n \<Rightarrow>
          (case left_subtree n of
             None \<Rightarrow> Inr self
           | Some l \<Rightarrow>
               (case get_node s l of
                  Inl e \<Rightarrow> Inl e
                | Inr lnode \<Rightarrow>
                    if is_negation_node lnode \<and> is_last lnode
                    then get_first_last_negative_node_walk fuel s l
                    else Inr self)))"

definition get_first_last_negative_node :: "Tree \<Rightarrow> nat \<Rightarrow> error + nat" where
  "get_first_last_negative_node s self =
     get_first_last_negative_node_walk (length (nodes s)) s self"

fun get_deepest_leave_walk :: "nat \<Rightarrow> Tree \<Rightarrow> nat \<Rightarrow> error + nat option" where
  "get_deepest_leave_walk 0 s self = Inl OutOfFuel"
| "get_deepest_leave_walk (Suc fuel) s self =
     (case get_node s self of
        Inl e \<Rightarrow> Inl e
      | Inr n \<Rightarrow>
          if node_class n = LeafNode then Inr (Some self)
          else (case left_subtree n of
                  None \<Rightarrow> Inr None
                | Some l \<Rightarrow> get_deepest_leave_walk fuel s l))"

definition get_deepest_leave :: "Tree \<Rightarrow> nat \<Rightarrow> error + nat option" where
  "get_deepest_leave s self = get_deepest_leave_walk (length (nodes s)) s self"

text \<open>
  In \<^verbatim>\<open>clean_expired_partial_matches\<close>: from the root down the left subtrees, past every
  \<^verbatim>\<open>FirstChanceNode\<close> with \<^verbatim>\<open>is_last\<close>, to the node that holds the threshold.  The result
  is \<open>None\<close> when the descent reaches a missing left subtree.
\<close>

fun node_to_hold_threshold_walk :: "nat \<Rightarrow> Tree \<Rightarrow> nat option \<Rightarrow> error + nat option" where
  "node_to_hold_threshold_walk 0 s r = Inl OutOfFuel"
| "node_to_hold_threshold_walk (Suc fuel) s None = Inr None"
| "node_to_hold_threshold_walk (Suc fuel) s (Some i) =
     (case get_node s i of
        Inl e \<Rightarrow> Inl e
      | Inr n \<Rightarrow>
          if node_class n = FirstChanceNode \<and> is_last n
          then node_to_hold_threshold_walk fuel s (left_subtree n)
          else Inr (Some i))"

definition node_to_hold_threshold :: "Tree \<Rightarrow> nat \<Rightarrow> error + nat" where
  "node_to_hold_threshold s self =
     bind_err (get_root s self) (\<lambda>r.
     bind_err (node_to_hold_threshold_walk (Suc (length (nodes s))) s (Some r)) deref)"

subsection \<open>The tests of a join\<close>

definition window_exceeded :: "Node \<Rightarrow> PartialMatch \<Rightarrow> PartialMatch \<Rightarrow> bool" where
  "window_exceeded n first_partial_match second_partial_match =
     (case sliding_window n of
        TimedeltaMax \<Rightarrow> False
      | Timedelta w \<Rightarrow>
          abs (last_timestamp first_partial_match - first_timestamp second_partial_match) > w)"

definition threshold_rejects :: "Node \<Rightarrow> PartialMatch \<Rightarrow> bool" where
  "threshold_rejects n first_partial_match =
     (case threshold n of
        None \<Rightarrow> False
      | Some t \<Rightarrow> last_timestamp first_partial_match < t)"

definition merge_events_for_new_match ::
  "Node \<Rightarrow> event_def list \<Rightarrow> event_def list \<Rightarrow> Event list \<Rightarrow> Event list \<Rightarrow> error + Event list" where
  "merge_events_for_new_match n first_event_defs second_event_defs first_event_list
       second_event_list =
     (if node_class n = SeqNode
      then merge_according_to first_event_defs second_event_defs first_event_list
             second_event_list fst
      else
        bind_err (py_index (event_defs n) 0) (\<lambda>d.
        bind_err (py_index first_event_defs 0) (\<lambda>d1.
        if fst d = fst d1 then Inr (first_event_list @ second_event_list)
        else
          bind_err (py_index second_event_defs 0) (\<lambda>d2.
          if fst d = fst d2 then Inr (second_event_list @ first_event_list)
          else Inl Exception))))"

fun make_binding :: "event_def list \<Rightarrow> Event list \<Rightarrow> binding \<Rightarrow> error + binding" where
  "make_binding [] evs b = Inr b"
| "make_binding (d # ds) [] b = Inl IndexError"
| "make_binding (d # ds) (e # es) b = make_binding ds es (b(q_name (snd d) \<mapsto> payload e))"

definition InternalNode_validate_new_match :: "Node \<Rightarrow> Event list \<Rightarrow> error + bool" where
  "InternalNode_validate_new_match n events_for_new_match =
     bind_err (make_binding (event_defs n) events_for_new_match Map.empty)
       (Formula_eval (condition n))"

definition validate_new_match :: "Node \<Rightarrow> Event list \<Rightarrow> error + bool" where
  "validate_new_match n events_for_new_match =
     (if node_class n = SeqNode \<and> \<not> is_sorted events_for_new_match timestamp then Inr False
      else InternalNode_validate_new_match n events_for_new_match)"

text \<open>
  \<^verbatim>\<open>InternalNegationNode._try_create_new_match\<close> changes nothing and answers whether the
  negative event and the positive match join; \<^verbatim>\<open>None\<close> (the window test) counts as false.
\<close>

definition InternalNegationNode_try_create_new_match ::
  "Node \<Rightarrow> PartialMatch \<Rightarrow> PartialMatch \<Rightarrow> event_def list \<Rightarrow> event_def list \<Rightarrow> error + bool" where
  "InternalNegationNode_try_create_new_match n first_partial_match second_partial_match
       first_event_defs second_event_defs =
     (if window_exceeded n first_partial_match second_partial_match then Inr False
      else
        bind_err (merge_according_to first_event_defs second_event_defs
                    (events first_partial_match) (events second_partial_match)
                    (\<lambda>d. q_index (snd d))) (\<lambda>events_for_new_match.
        case top_operator n of
          SeqOperator \<Rightarrow>
            if \<not> is_sorted events_for_new_match timestamp then Inr False
            else InternalNode_validate_new_match n events_for_new_match
        | AndOperator \<Rightarrow> Inl NotImplementedError
        | OrOperator \<Rightarrow> Inl NotImplementedError))"

subsection \<open>The join protocol\<close>

text \<open>
  \<^verbatim>\<open>clean_expired_partial_matches\<close> and \<^verbatim>\<open>handle_new_partial_match\<close> call each other.  Their
  bodies are written once, with the two methods they call as parameters (\<open>cln\<close> and \<open>hnd\<close>),
  and are tied together below by recursion on a bound of the call depth.

  A \<^verbatim>\<open>for\<close> loop runs over the value the list has when it is read.  The list a handler
  iterates belongs to the other subtree; an insertion into a node is always preceded, in the
  same method, by the expiration of that node, which rebinds its list (line 74), so an
  insertion during the loop never reaches the list object being iterated.
\<close>

type_synonym clean_call = "Tree \<Rightarrow> nat \<Rightarrow> int \<Rightarrow> error + Tree"
type_synonym handle_call = "Tree \<Rightarrow> nat \<Rightarrow> nat \<Rightarrow> error + Tree"

definition pop_unhandled :: "Tree \<Rightarrow> nat \<Rightarrow> error + PartialMatch \<times> Tree" where
  "pop_unhandled s source =
     bind_err (get_node s source) (\<lambda>n.
     bind_err (get_last_unhandled_partial_match n) (\<lambda>(pm, n').
     Inr (pm, set_node s source n')))"

text \<open>\<^verbatim>\<open>self.add_partial_match(pm)\<close> followed by the notification of the parent, if any.\<close>

definition add_and_notify :: "handle_call \<Rightarrow> Tree \<Rightarrow> nat \<Rightarrow> PartialMatch \<Rightarrow> error + Tree" where
  "add_and_notify hnd s self pm =
     bind_err (get_node s self) (\<lambda>n.
     bind_err (add_partial_match n pm) (\<lambda>n'.
     case parent n' of
       None \<Rightarrow> Inr (set_node s self n')
     | Some p \<Rightarrow> hnd (set_node s self n') p self))"

definition InternalNode_try_create_new_match ::
  "handle_call \<Rightarrow> Tree \<Rightarrow> nat \<Rightarrow> PartialMatch \<Rightarrow> PartialMatch \<Rightarrow> event_def list \<Rightarrow> event_def list
     \<Rightarrow> error + Tree" where
  "InternalNode_try_create_new_match hnd s self first_partial_match second_partial_match
       first_event_defs second_event_defs =
     bind_err (get_node s self) (\<lambda>n.
     if window_exceeded n first_partial_match second_partial_match then Inr s
     else
       bind_err (merge_events_for_new_match n first_event_defs second_event_defs
                   (events first_partial_match) (events second_partial_match))
         (\<lambda>events_for_new_match.
       bind_err (validate_new_match n events_for_new_match) (\<lambda>valid.
       if \<not> valid then Inr s
       else if threshold_rejects n first_partial_match then Inr s
       else
         bind_err (new_PartialMatch s events_for_new_match) (\<lambda>(pm, s').
         add_and_notify hnd s' self pm))))"

fun try_create_loop ::
  "handle_call \<Rightarrow> Tree \<Rightarrow> nat \<Rightarrow> PartialMatch \<Rightarrow> event_def list \<Rightarrow> event_def list
     \<Rightarrow> PartialMatch list \<Rightarrow> error + Tree" where
  "try_create_loop hnd s self new_partial_match first_event_defs second_event_defs [] = Inr s"
| "try_create_loop hnd s self new_partial_match first_event_defs second_event_defs
       (partialMatch # rest) =
     (case InternalNode_try_create_new_match hnd s self new_partial_match partialMatch
             first_event_defs second_event_defs of
        Inl e \<Rightarrow> Inl e
      | Inr s' \<Rightarrow>
          try_create_loop hnd s' self new_partial_match first_event_defs second_event_defs rest)"

text \<open>
  The common opening of the handlers: take the new partial match from the source, expire the
  other subtree, read its partial matches and event definitions, expire this node.
\<close>

definition prepare_join ::
  "clean_call \<Rightarrow> Tree \<Rightarrow> nat \<Rightarrow> nat \<Rightarrow> nat option
     \<Rightarrow> error + (PartialMatch \<times> event_def list \<times> PartialMatch list \<times> event_def list \<times> Tree)" where
  "prepare_join cln s self source other_subtree =
     bind_err (pop_unhandled s source) (\<lambda>(new_partial_match, s1).
     bind_err (get_event_definitions s1 source) (\<lambda>first_event_defs.
     bind_err (deref other_subtree) (\<lambda>other.
     bind_err (cln s1 other (last_timestamp new_partial_match)) (\<lambda>s2.
     bind_err (get_node s2 other) (\<lambda>other_node.
     bind_err (get_event_definitions s2 other) (\<lambda>second_event_defs.
     bind_err (cln s2 self (last_timestamp new_partial_match)) (\<lambda>s3.
     Inr (new_partial_match, first_event_defs, partial_matches other_node,
          second_event_defs, s3))))))))"

definition InternalNode_handle_new_partial_match ::
  "clean_call \<Rightarrow> handle_call \<Rightarrow> Tree \<Rightarrow> nat \<Rightarrow> nat \<Rightarrow> error + Tree" where
  "InternalNode_handle_new_partial_match cln hnd s self partial_match_source =
     bind_err (get_node s self) (\<lambda>n.
     bind_err (if Some partial_match_source = left_subtree n then Inr (right_subtree n)
               else if Some partial_match_source = right_subtree n then Inr (left_subtree n)
               else Inl Exception) (\<lambda>other_subtree.
     bind_err (prepare_join cln s self partial_match_source other_subtree)
       (\<lambda>(new_partial_match, first_event_defs, partial_matches_to_compare,
           second_event_defs, s').
     try_create_loop hnd s' self new_partial_match first_event_defs second_event_defs
       partial_matches_to_compare)))"

subsection \<open>Negation nodes\<close>

fun find_invalidating ::
  "Node \<Rightarrow> PartialMatch \<Rightarrow> event_def list \<Rightarrow> event_def list \<Rightarrow> PartialMatch list
     \<Rightarrow> error + PartialMatch option" where
  "find_invalidating n new_partial_match first_event_defs second_event_defs [] = Inr None"
| "find_invalidating n new_partial_match first_event_defs second_event_defs
       (partialMatch # rest) =
     (case InternalNegationNode_try_create_new_match n new_partial_match partialMatch
             first_event_defs second_event_defs of
        Inl e \<Rightarrow> Inl e
      | Inr invalidate \<Rightarrow>
          if invalidate then Inr (Some partialMatch)
          else find_invalidating n new_partial_match first_event_defs second_event_defs rest)"

fun select_joining ::
  "bool \<Rightarrow> Node \<Rightarrow> PartialMatch \<Rightarrow> event_def list \<Rightarrow> event_def list \<Rightarrow> PartialMatch list
     \<Rightarrow> error + PartialMatch list" where
  "select_joining want n new_partial_match first_event_defs second_event_defs [] = Inr []"
| "select_joining want n new_partial_match first_event_defs second_event_defs
       (partialMatch # rest) =
     (case InternalNegationNode_try_create_new_match n new_partial_match partialMatch
             first_event_defs second_event_defs of
        Inl e \<Rightarrow> Inl e
      | Inr joins \<Rightarrow>
          (case select_joining want n new_partial_match first_event_defs second_event_defs rest of
             Inl e \<Rightarrow> Inl e
           | Inr selected \<Rightarrow>
               Inr (if joins = want then partialMatch # selected else selected)))"

definition handle_PM_with_negation_at_the_end ::
  "clean_call \<Rightarrow> Tree \<Rightarrow> nat \<Rightarrow> nat \<Rightarrow> error + Tree" where
  "handle_PM_with_negation_at_the_end cln s self partial_match_source =
     bind_err (get_first_last_negative_node s self) (\<lambda>other.
     bind_err (pop_unhandled s partial_match_source) (\<lambda>(new_partial_match, s1).
     bind_err (get_event_definitions s1 partial_match_source) (\<lambda>first_event_defs.
     bind_err (cln s1 other (last_timestamp new_partial_match)) (\<lambda>s2.
     bind_err (get_node s2 other) (\<lambda>other_node.
     bind_err (get_event_definitions s2 other) (\<lambda>second_event_defs.
     bind_err (cln s2 self (last_timestamp new_partial_match)) (\<lambda>s3.
     bind_err (get_node s3 self) (\<lambda>n.
     bind_err (select_joining False n new_partial_match first_event_defs second_event_defs
                 (waiting_for_time_out other_node)) (\<lambda>matches_to_keep.
     bind_err (get_node s3 other) (\<lambda>other_node'.
     Inr (set_node s3 other (other_node'\<lparr>waiting_for_time_out := matches_to_keep\<rparr>))))))))))))"

text \<open>
  The end of the negative branch of \<^verbatim>\<open>FirstChanceNode.handle_new_partial_match\<close>: the
  invalidated matches are removed from this node and from every \<^verbatim>\<open>FirstChanceNode\<close> above
  it, up to the first ancestor of another class.
\<close>

fun remove_in_FirstChance_chain ::
  "nat \<Rightarrow> Tree \<Rightarrow> nat option \<Rightarrow> PartialMatch list \<Rightarrow> error + Tree" where
  "remove_in_FirstChance_chain 0 s node partial_match_to_remove = Inl OutOfFuel"
| "remove_in_FirstChance_chain (Suc fuel) s None partial_match_to_remove = Inr s"
| "remove_in_FirstChance_chain (Suc fuel) s (Some i) partial_match_to_remove =
     (case get_node s i of
        Inl e \<Rightarrow> Inl e
      | Inr n \<Rightarrow>
          if node_class n = FirstChanceNode
          then remove_in_FirstChance_chain fuel
                 (set_node s i (remove_partial_matches n partial_match_to_remove))
                 (parent n) partial_match_to_remove
          else Inr s)"

definition append_waiting_for_time_out :: "Tree \<Rightarrow> nat \<Rightarrow> PartialMatch \<Rightarrow> error + Tree" where
  "append_waiting_for_time_out s self pm =
     bind_err (get_node s self) (\<lambda>n.
     Inr (set_node s self (n\<lparr>waiting_for_time_out := waiting_for_time_out n @ [pm]\<rparr>)))"

definition FirstChanceNode_handle_new_partial_match ::
  "clean_call \<Rightarrow> handle_call \<Rightarrow> Tree \<Rightarrow> nat \<Rightarrow> nat \<Rightarrow> error + Tree" where
  "FirstChanceNode_handle_new_partial_match cln hnd s self partial_match_source =
     bind_err (get_node s self) (\<lambda>n.
     if Some partial_match_source = left_subtree n then
       (if is_last n then
          bind_err (pop_unhandled s partial_match_source) (\<lambda>(new_partial_match, s1).
          append_waiting_for_time_out s1 self new_partial_match)
        else
          bind_err (prepare_join cln s self partial_match_source (right_subtree n))
            (\<lambda>(new_partial_match, first_event_defs, partial_matches_to_compare,
                second_event_defs, s1).
          bind_err (get_node s1 self) (\<lambda>n1.
          bind_err (find_invalidating n1 new_partial_match first_event_defs second_event_defs
                      partial_matches_to_compare) (\<lambda>invalidating.
          case invalidating of
            None \<Rightarrow> add_and_notify hnd s1 self new_partial_match
          | Some partialMatch \<Rightarrow>
              if is_first n1 then
                (case sliding_window n1 of
                   TimedeltaMax \<Rightarrow> Inl OverflowError
                 | Timedelta w \<Rightarrow>
                     Inr (set_node s1 self
                            (n1\<lparr>check_expired_timestamp := check_expired_timestamp n1 @
                                  [(last_timestamp partialMatch + w, new_partial_match)]\<rparr>)))
              else Inr s1))))
     else if Some partial_match_source = right_subtree n then
       (if is_first n then Inr s
        else if is_last n then handle_PM_with_negation_at_the_end cln s self partial_match_source
        else
          bind_err (prepare_join cln s self partial_match_source (left_subtree n))
            (\<lambda>(new_partial_match, first_event_defs, partial_matches_to_compare,
                second_event_defs, s1).
          bind_err (get_node s1 self) (\<lambda>n1.
          bind_err (select_joining True n1 new_partial_match first_event_defs second_event_defs
                      partial_matches_to_compare) (\<lambda>partial_match_to_remove.
          remove_in_FirstChance_chain (Suc (length (nodes s1))) s1 (Some self)
            partial_match_to_remove))))
     else Inr s)"

definition PostProcessingNode_handle_new_partial_match ::
  "clean_call \<Rightarrow> handle_call \<Rightarrow> Tree \<Rightarrow> nat \<Rightarrow> nat \<Rightarrow> error + Tree" where
  "PostProcessingNode_handle_new_partial_match cln hnd s self partial_match_source =
     bind_err (get_node s self) (\<lambda>n.
     if Some partial_match_source = left_subtree n then
       (if is_last n then
          bind_err (pop_unhandled s partial_match_source) (\<lambda>(new_partial_match, s1).
          append_waiting_for_time_out s1 self new_partial_match)
        else
          bind_err (prepare_join cln s self partial_match_source (right_subtree n))
            (\<lambda>(new_partial_match, first_event_defs, partial_matches_to_compare,
                second_event_defs, s1).
          bind_err (get_node s1 self) (\<lambda>n1.
          bind_err (find_invalidating n1 new_partial_match first_event_defs second_event_defs
                      partial_matches_to_compare) (\<lambda>invalidating.
          case invalidating of
            None \<Rightarrow> add_and_notify hnd s1 self new_partial_match
          | Some partialMatch \<Rightarrow> Inr s1))))
     else if Some partial_match_source = right_subtree n then
       (if is_last n then handle_PM_with_negation_at_the_end cln s self partial_match_source
        else Inr s)
     else Inl Exception)"

definition handle_new_partial_match_body ::
  "clean_call \<Rightarrow> handle_call \<Rightarrow> Tree \<Rightarrow> nat \<Rightarrow> nat \<Rightarrow> error + Tree" where
  "handle_new_partial_match_body cln hnd s self partial_match_source =
     bind_err (get_node s self) (\<lambda>n.
     case node_class n of
       LeafNode \<Rightarrow> Inl AttributeError
     | AndNode \<Rightarrow> InternalNode_handle_new_partial_match cln hnd s self partial_match_source
     | SeqNode \<Rightarrow> InternalNode_handle_new_partial_match cln hnd s self partial_match_source
     | FirstChanceNode \<Rightarrow>
         FirstChanceNode_handle_new_partial_match cln hnd s self partial_match_source
     | PostProcessingNode \<Rightarrow>
         PostProcessingNode_handle_new_partial_match cln hnd s self partial_match_source)"

subsection \<open>Expiration\<close>

text \<open>
  Lines 84 to 91: a negation node with \<^verbatim>\<open>is_last\<close> sorts its \<^verbatim>\<open>waiting_for_time_out\<close>
  (Python's \<^verbatim>\<open>sorted\<close> is stable, as \<open>sort_key\<close> is) and hands the expired prefix to the
  \<^verbatim>\<open>matches_to_handle_at_EOF\<close> of the root, which only a negation node has.
\<close>

definition release_timed_out :: "Tree \<Rightarrow> nat \<Rightarrow> int \<Rightarrow> int \<Rightarrow> error + Tree" where
  "release_timed_out s self last_ts w =
     bind_err (get_node s self) (\<lambda>n.
     if is_negation_node n \<and> is_last n then
       (let waiting = sort_key first_timestamp (waiting_for_time_out n) in
        bind_err (find_partial_match_by_timestamp waiting (last_ts - w)) (\<lambda>cnt.
        bind_err (get_root s self) (\<lambda>r.
        bind_err (get_node (set_node s self (n\<lparr>waiting_for_time_out := waiting\<rparr>)) r)
          (\<lambda>root_node.
        if \<not> is_negation_node root_node then Inl AttributeError
        else
          (let s1 = set_node (set_node s self (n\<lparr>waiting_for_time_out := waiting\<rparr>)) r
                      (root_node\<lparr>matches_to_handle_at_EOF :=
                         matches_to_handle_at_EOF root_node @ slice_to waiting cnt\<rparr>)
           in bind_err (get_node s1 self) (\<lambda>n1.
              Inr (set_node s1 self
                     (n1\<lparr>waiting_for_time_out := slice_from waiting cnt\<rparr>))))))))
     else Inr s)"

text \<open>
  Lines 120 to 147, for one blocked partial match: the threshold is set, the entry removed,
  the match put back into the queue of the left subtree and handled again, the threshold
  reset.
\<close>

fun unblock_loop ::
  "handle_call \<Rightarrow> Tree \<Rightarrow> nat \<Rightarrow> nat \<Rightarrow> int \<Rightarrow> PartialMatch list \<Rightarrow> error + Tree" where
  "unblock_loop hnd s self node last_ts [] = Inr s"
| "unblock_loop hnd s self node last_ts (pm # rest) =
     (case
        bind_err (node_to_hold_threshold s self) (\<lambda>holder.
        bind_err (get_node s holder) (\<lambda>holder_node.
        let s1 = set_node s holder (holder_node\<lparr>threshold := Some last_ts\<rparr>) in
        bind_err (get_node s1 node) (\<lambda>n.
        let s2 = set_node s1 node
                   (n\<lparr>check_expired_timestamp :=
                        filter (\<lambda>x. snd x \<noteq> pm) (check_expired_timestamp n)\<rparr>) in
        bind_err (deref (left_subtree n)) (\<lambda>l.
        bind_err (get_node s2 l) (\<lambda>left_node.
        let s3 = set_node s2 l
                   (left_node\<lparr>unhandled_partial_matches :=
                      unhandled_partial_matches left_node @ [pm]\<rparr>) in
        bind_err (hnd s3 node l) (\<lambda>s4.
        bind_err (get_node s4 holder) (\<lambda>holder_node'.
        Inr (set_node s4 holder (holder_node'\<lparr>threshold := None\<rparr>))))))))) of
        Inl e \<Rightarrow> Inl e
      | Inr s' \<Rightarrow> unblock_loop hnd s' self node last_ts rest)"

text \<open>
  Lines 112 to 147, the loop over the \<^verbatim>\<open>FirstChanceNode\<close>s with \<^verbatim>\<open>is_first\<close>.  The
  \<^verbatim>\<open>return\<close> of line 114 leaves the whole method.
\<close>

fun first_FCNodes_loop ::
  "handle_call \<Rightarrow> Tree \<Rightarrow> nat \<Rightarrow> int \<Rightarrow> nat list \<Rightarrow> error + Tree" where
  "first_FCNodes_loop hnd s self last_ts [] = Inr s"
| "first_FCNodes_loop hnd s self last_ts (node # rest) =
     (case get_node s node of
        Inl e \<Rightarrow> Inl e
      | Inr n \<Rightarrow>
          if sliding_window n = TimedeltaMax then Inr s
          else
            (case
               bind_err (deref (right_subtree n)) (\<lambda>r.
               bind_err (get_node s r) (\<lambda>right_node.
               bind_err (case sliding_window right_node of
                           TimedeltaMax \<Rightarrow> Inl OverflowError
                         | Timedelta w \<Rightarrow> drop_expired right_node last_ts w) (\<lambda>right_node'.
               let s1 = set_node s r right_node' in
               bind_err (get_node s1 node) (\<lambda>n1.
               unblock_loop hnd s1 self node last_ts
                 (map snd (filter (\<lambda>x. fst x < last_ts) (check_expired_timestamp n1))))))) of
               Inl e \<Rightarrow> Inl e
             | Inr s' \<Rightarrow> first_FCNodes_loop hnd s' self last_ts rest))"

definition clean_expired_partial_matches_body ::
  "handle_call \<Rightarrow> Tree \<Rightarrow> nat \<Rightarrow> int \<Rightarrow> error + Tree" where
  "clean_expired_partial_matches_body hnd s self last_ts =
     bind_err (get_node s self) (\<lambda>n.
     case sliding_window n of
       TimedeltaMax \<Rightarrow> Inr s
     | Timedelta w \<Rightarrow>
         bind_err (drop_expired n last_ts w) (\<lambda>n'.
         bind_err (release_timed_out (set_node s self n') self last_ts w) (\<lambda>s1.
         bind_err (get_node s1 self) (\<lambda>n1.
         bind_err (case parent n1 of
                     Some p \<Rightarrow> get_first_FCNodes s1 p
                   | None \<Rightarrow> get_first_FCNodes s1 self) (\<lambda>list_of_nodes.
         first_FCNodes_loop hnd s1 self last_ts list_of_nodes)))))"

text \<open>
  The two methods, by recursion on a bound of the depth of their calls: \<open>OutOfFuel\<close> is the
  answer of a call the bound cuts off.
\<close>

fun clean_expired_partial_matches :: "nat \<Rightarrow> clean_call"
  and handle_new_partial_match :: "nat \<Rightarrow> handle_call" where
  "clean_expired_partial_matches 0 s self last_ts = Inl OutOfFuel"
| "clean_expired_partial_matches (Suc fuel) s self last_ts =
     clean_expired_partial_matches_body (handle_new_partial_match fuel) s self last_ts"
| "handle_new_partial_match 0 s self partial_match_source = Inl OutOfFuel"
| "handle_new_partial_match (Suc fuel) s self partial_match_source =
     handle_new_partial_match_body (clean_expired_partial_matches fuel)
       (handle_new_partial_match fuel) s self partial_match_source"

subsection \<open>LeafNode.handle_event\<close>

definition handle_event :: "nat \<Rightarrow> Tree \<Rightarrow> nat \<Rightarrow> Event \<Rightarrow> error + Tree" where
  "handle_event fuel s self event =
     bind_err (clean_expired_partial_matches fuel s self (timestamp event)) (\<lambda>s1.
     bind_err (get_node s1 self) (\<lambda>n.
     bind_err (Formula_eval (condition n) [leaf_event_name n \<mapsto> payload event]) (\<lambda>holds.
     if \<not> holds then Inr s1
     else
       bind_err (new_PartialMatch s1 [event]) (\<lambda>(pm, s2).
       add_and_notify (handle_new_partial_match fuel) s2 self pm))))"

section \<open>Construction of the tree\<close>

text \<open>
  Modelled from the spec: \<^verbatim>\<open>base/Pattern.py\<close> and \<^verbatim>\<open>base/PatternStructure.py\<close> are not among
  the sources.  A pattern has the operator of its source structure, the placeholders of the
  source in their order (each negated or not), a condition and a window.
  \<^verbatim>\<open>pattern.structure.args\<close> are the placeholders that are not negated,
  \<^verbatim>\<open>pattern.negative_event.get_args()\<close> the negated ones, \<^verbatim>\<open>pattern.origin_structure\<close> has
  them all.  Two placeholders are the same object when they are equal as values (their
  names and positions differ).
\<close>

record PatternItem =
  negated :: bool
  qitem :: QItem

record Pattern =
  pattern_operator :: operator
  origin_args :: "PatternItem list"
  pattern_condition :: Formula
  window :: timedelta

definition structure_args :: "Pattern \<Rightarrow> QItem list" where
  "structure_args pat = map qitem (filter (\<lambda>p. \<not> negated p) (origin_args pat))"

definition negative_event_args :: "Pattern \<Rightarrow> PatternItem list" where
  "negative_event_args pat = filter negated (origin_args pat)"

text \<open>Modelled from the spec: the enumeration of \<^verbatim>\<open>evaluation/EvaluationMechanism.py\<close>.\<close>

datatype NegationMode = POST_PROCESSING | FIRST_CHANCE

text \<open>The tree-shape descriptor: an index into the positive placeholders, or a pair.\<close>

datatype tree_structure = Index int | Tuple tree_structure tree_structure

definition alloc :: "Tree \<Rightarrow> Node \<Rightarrow> nat \<times> Tree" where
  "alloc s n = (length (nodes s), s\<lparr>nodes := nodes s @ [n]\<rparr>)"

definition set_parent :: "Tree \<Rightarrow> nat \<Rightarrow> nat option \<Rightarrow> error + Tree" where
  "set_parent s self par =
     bind_err (get_node s self) (\<lambda>n. Inr (set_node s self (n\<lparr>parent := par\<rparr>)))"

definition set_event_definitions ::
  "Node \<Rightarrow> event_def list \<Rightarrow> event_def list \<Rightarrow> Node" where
  "set_event_definitions n left_event_defs right_event_defs =
     (if node_class n = SeqNode
      then n\<lparr>event_defs := merge left_event_defs right_event_defs fst\<rparr>
      else if is_negation_node n
      then n\<lparr>event_defs := merge left_event_defs right_event_defs (\<lambda>d. q_index (snd d))\<rparr>
      else n\<lparr>event_defs := left_event_defs @ right_event_defs\<rparr>)"

definition set_subtrees :: "Tree \<Rightarrow> nat \<Rightarrow> nat option \<Rightarrow> nat option \<Rightarrow> error + Tree" where
  "set_subtrees s self left right =
     bind_err (get_node s self) (\<lambda>n.
     let s1 = set_node s self (n\<lparr>left_subtree := left, right_subtree := right\<rparr>) in
     bind_err (deref left) (\<lambda>l.
     bind_err (get_event_definitions s1 l) (\<lambda>left_event_defs.
     bind_err (deref right) (\<lambda>r.
     bind_err (get_event_definitions s1 r) (\<lambda>right_event_defs.
     bind_err (get_node s1 self) (\<lambda>n1.
     Inr (set_node s1 self (set_event_definitions n1 left_event_defs right_event_defs))))))))"

fun construct_tree ::
  "bool \<Rightarrow> tree_structure \<Rightarrow> QItem list \<Rightarrow> timedelta \<Rightarrow> nat option \<Rightarrow> Tree
     \<Rightarrow> error + nat \<times> Tree" where
  "construct_tree is_sequence (Index i) args w par s =
     (case py_index args i of
        Inl e \<Rightarrow> Inl e
      | Inr q \<Rightarrow> Inr (alloc s (LeafNode_init w i q par)))"
| "construct_tree is_sequence (Tuple left_structure right_structure) args w par s =
     (case alloc s (InternalNode_init (if is_sequence then SeqNode else AndNode) w par) of
        (current, s1) \<Rightarrow>
          (case construct_tree is_sequence left_structure args w (Some current) s1 of
             Inl e \<Rightarrow> Inl e
           | Inr (left, s2) \<Rightarrow>
               (case construct_tree is_sequence right_structure args w (Some current) s2 of
                  Inl e \<Rightarrow> Inl e
                | Inr (right, s3) \<Rightarrow>
                    (case set_subtrees s3 current (Some left) (Some right) of
                       Inl e \<Rightarrow> Inl e
                     | Inr s4 \<Rightarrow> Inr (current, s4)))))"

definition names_of :: "event_def list \<Rightarrow> string set" where
  "names_of defs = set (map (\<lambda>item. q_name (snd item)) defs)"

definition LeafNode_apply_formula :: "Node \<Rightarrow> Formula \<Rightarrow> Node" where
  "LeafNode_apply_formula n formula =
     (case get_formula_of formula (NameStr (leaf_event_name n)) of
        None \<Rightarrow> n
      | Some c \<Rightarrow> n\<lparr>condition := c\<rparr>)"

definition project_condition :: "Formula \<Rightarrow> event_def list \<Rightarrow> Formula" where
  "project_condition formula defs =
     (case get_formula_of formula (NameSet (names_of defs)) of
        None \<Rightarrow> TrueFormula
      | Some c \<Rightarrow> c)"

fun apply_formula_walk :: "nat \<Rightarrow> Tree \<Rightarrow> nat \<Rightarrow> Formula \<Rightarrow> error + Tree" where
  "apply_formula_walk 0 s self formula = Inl OutOfFuel"
| "apply_formula_walk (Suc fuel) s self formula =
     (case get_node s self of
        Inl e \<Rightarrow> Inl e
      | Inr n \<Rightarrow>
          if node_class n = LeafNode
          then Inr (set_node s self (LeafNode_apply_formula n formula))
          else
            (let c = project_condition formula (event_defs n);
                 s1 = set_node s self (n\<lparr>condition := c\<rparr>)
             in case left_subtree n of
                  None \<Rightarrow> Inl AttributeError
                | Some l \<Rightarrow>
                    (case apply_formula_walk fuel s1 l c of
                       Inl e \<Rightarrow> Inl e
                     | Inr s2 \<Rightarrow>
                         (case right_subtree n of
                            None \<Rightarrow> Inl AttributeError
                          | Some r \<Rightarrow> apply_formula_walk fuel s2 r c))))"

definition apply_formula :: "Tree \<Rightarrow> nat \<Rightarrow> Formula \<Rightarrow> error + Tree" where
  "apply_formula s self formula = apply_formula_walk (length (nodes s)) s self formula"

fun list_index :: "'a list \<Rightarrow> 'a \<Rightarrow> error + nat" where
  "list_index [] x = Inl ValueError"
| "list_index (y # ys) x =
     (if y = x then Inr 0
      else case list_index ys x of Inl e \<Rightarrow> Inl e | Inr i \<Rightarrow> Inr (Suc i))"

text \<open>
  The three-way choice of the flags of a new negation node, for the negated placeholder
  \<open>p\<close> and the current value of \<^verbatim>\<open>counter\<close>; the answer is \<open>(is_first, is_last)\<close>.
\<close>

definition negation_flags :: "Pattern \<Rightarrow> PatternItem \<Rightarrow> nat \<Rightarrow> error + bool \<times> bool" where
  "negation_flags pat p counter =
     bind_err (py_index (origin_args pat) (int counter)) (\<lambda>leading.
     if p = leading then Inr (True, False)
     else
       bind_err (list_index (negative_event_args pat) p) (\<lambda>i.
       bind_err (list_index (origin_args pat) p) (\<lambda>j.
       if int (length (negative_event_args pat)) - int i = int (length (origin_args pat)) - int j
       then Inr (False, True)
       else Inr (False, False))))"

definition set_projected_condition :: "Tree \<Rightarrow> nat \<Rightarrow> Formula \<Rightarrow> error + Tree" where
  "set_projected_condition s self formula =
     bind_err (get_node s self) (\<lambda>n.
     Inr (set_node s self (n\<lparr>condition := project_condition formula (event_defs n)\<rparr>)))"

fun create_PostProcessing_loop ::
  "Pattern \<Rightarrow> PatternItem list \<Rightarrow> nat \<Rightarrow> nat \<Rightarrow> Tree \<Rightarrow> error + nat \<times> Tree" where
  "create_PostProcessing_loop pat [] counter temp_root s = Inr (temp_root, s)"
| "create_PostProcessing_loop pat (p # rest) counter temp_root s =
     (case
        bind_err (negation_flags pat p counter) (\<lambda>(first', last').
        case alloc s (InternalNegationNode_init PostProcessingNode (window pat) first' last'
                        (pattern_operator pat)) of
          (temporal_root, s1) \<Rightarrow>
        case alloc s1 (LeafNode_init (window pat) 1 (qitem p) (Some temporal_root)) of
          (temp_neg_event, s2) \<Rightarrow>
        bind_err (set_subtrees s2 temporal_root (Some temp_root) (Some temp_neg_event)) (\<lambda>s3.
        bind_err (set_parent s3 temp_neg_event (Some temporal_root)) (\<lambda>s4.
        bind_err (set_parent s4 temp_root (Some temporal_root)) (\<lambda>s5.
        bind_err (set_projected_condition s5 temporal_root (pattern_condition pat)) (\<lambda>s6.
        Inr (temporal_root, (if first' then Suc counter else counter), s6)))))) of
        Inl e \<Rightarrow> Inl e
      | Inr (temp_root', counter', s') \<Rightarrow>
          create_PostProcessing_loop pat rest counter' temp_root' s')"

definition create_PostProcessing_Tree :: "Tree \<Rightarrow> nat \<Rightarrow> Pattern \<Rightarrow> error + Tree" where
  "create_PostProcessing_Tree s temp_root pat =
     bind_err (create_PostProcessing_loop pat (negative_event_args pat) 0 temp_root s)
       (\<lambda>(r, s'). Inr (s'\<lparr>root := r\<rparr>))"

fun find_positive_events_before ::
  "PatternItem \<Rightarrow> string set \<Rightarrow> PatternItem list \<Rightarrow> string set" where
  "find_positive_events_before p names [] = names"
| "find_positive_events_before p names (e # origin) =
     (if e = p then names
      else find_positive_events_before p
             (if \<not> negated e then insert (q_name (qitem e)) names else names) origin)"

definition depending_events :: "Pattern \<Rightarrow> PatternItem \<Rightarrow> error + string set" where
  "depending_events pat p =
     bind_err (get_events_in_a_condition_with (pattern_condition pat) (q_name (qitem p)))
       (\<lambda>p_conditions.
     let names = (case p_conditions of None \<Rightarrow> {} | Some c \<Rightarrow> get_all_terms c {});
         names = (if pattern_operator pat = SeqOperator
                  then find_positive_events_before p names (origin_args pat) else names)
     in Inr (names - {q_name (qitem p)}))"

text \<open>
  The search of the \<^verbatim>\<open>while keep_looking\<close> loop: from a node upwards to the first node whose
  event definitions name all depending events.
\<close>

fun find_covering_node :: "nat \<Rightarrow> Tree \<Rightarrow> string set \<Rightarrow> nat option \<Rightarrow> error + nat" where
  "find_covering_node 0 s depending node = Inl OutOfFuel"
| "find_covering_node (Suc fuel) s depending None = Inl AttributeError"
| "find_covering_node (Suc fuel) s depending (Some i) =
     (case get_event_definitions s i of
        Inl e \<Rightarrow> Inl e
      | Inr defs \<Rightarrow>
          if depending \<subseteq> names_of defs then Inr i
          else (case get_node s i of
                  Inl e \<Rightarrow> Inl e
                | Inr n \<Rightarrow> find_covering_node fuel s depending (parent n)))"

text \<open>\<^verbatim>\<open>while type(node._parent) == FirstChanceNode: node = node._parent\<close>\<close>

fun skip_FirstChance_parents :: "nat \<Rightarrow> Tree \<Rightarrow> nat \<Rightarrow> error + nat" where
  "skip_FirstChance_parents 0 s node = Inl OutOfFuel"
| "skip_FirstChance_parents (Suc fuel) s node =
     (case get_node s node of
        Inl e \<Rightarrow> Inl e
      | Inr n \<Rightarrow>
          (case parent n of
             None \<Rightarrow> Inr node
           | Some p \<Rightarrow>
               (case get_node s p of
                  Inl e \<Rightarrow> Inl e
                | Inr pn \<Rightarrow> if node_class pn = FirstChanceNode
                             then skip_FirstChance_parents fuel s p else Inr node)))"

definition insert_FirstChanceNode :: "Tree \<Rightarrow> Pattern \<Rightarrow> PatternItem \<Rightarrow> nat \<Rightarrow> error + Tree" where
  "insert_FirstChanceNode s pat p node =
     bind_err (negation_flags pat p 0) (\<lambda>(first', last').
     case alloc s (InternalNegationNode_init FirstChanceNode (window pat) first' last'
                     (pattern_operator pat)) of
       (temporal_root, s1) \<Rightarrow>
     case alloc s1 (LeafNode_apply_formula
                      (LeafNode_init (window pat) 1 (qitem p) (Some temporal_root))
                      (pattern_condition pat)) of
       (temp_neg_event, s2) \<Rightarrow>
     bind_err (set_subtrees s2 temporal_root (Some node) (Some temp_neg_event)) (\<lambda>s3.
     bind_err (set_parent s3 temp_neg_event (Some temporal_root)) (\<lambda>s4.
     bind_err (get_node s4 node) (\<lambda>n.
     bind_err (set_parent s4 temporal_root (parent n)) (\<lambda>s5.
     bind_err (set_parent s5 node (Some temporal_root)) (\<lambda>s6.
     bind_err (case parent n of
                 None \<Rightarrow> Inr s6
               | Some par \<Rightarrow>
                   bind_err (get_node s6 par) (\<lambda>parent_node.
                   set_subtrees s6 par (Some temporal_root) (right_subtree parent_node))) (\<lambda>s7.
     set_projected_condition s7 temporal_root (pattern_condition pat))))))))"

fun create_FirstChanceNegation_loop ::
  "Pattern \<Rightarrow> PatternItem list \<Rightarrow> nat option \<Rightarrow> Tree \<Rightarrow> error + nat option \<times> Tree" where
  "create_FirstChanceNegation_loop pat [] node s = Inr (node, s)"
| "create_FirstChanceNegation_loop pat (p # rest) node s =
     (case
        bind_err (depending_events pat p) (\<lambda>set_of_depending_events.
        bind_err (get_deepest_leave s (root s)) (\<lambda>leaf.
        bind_err (find_covering_node (Suc (length (nodes s))) s set_of_depending_events leaf)
          (\<lambda>covering.
        bind_err (skip_FirstChance_parents (Suc (length (nodes s))) s covering) (\<lambda>node'.
        bind_err (insert_FirstChanceNode s pat p node') (\<lambda>s'.
        Inr (Some node', s')))))) of
        Inl e \<Rightarrow> Inl e
      | Inr (node', s') \<Rightarrow> create_FirstChanceNegation_loop pat rest node' s')"

definition create_FirstChanceNegation_Tree :: "Tree \<Rightarrow> Pattern \<Rightarrow> error + Tree" where
  "create_FirstChanceNegation_Tree s pat =
     bind_err (create_FirstChanceNegation_loop pat (negative_event_args pat) (Some (root s)) s)
       (\<lambda>(node, s').
     bind_err (deref node) (\<lambda>i.
     bind_err (get_root s' i) (\<lambda>r. Inr (s'\<lparr>root := r\<rparr>))))"

definition Tree_init :: "tree_structure \<Rightarrow> Pattern \<Rightarrow> NegationMode \<Rightarrow> error + Tree" where
  "Tree_init structure pat negation_mode =
     bind_err (construct_tree (pattern_operator pat = SeqOperator) structure (structure_args pat)
                 (window pat) None \<lparr>nodes = [], root = 0, next_pm_id = 0\<rparr>) (\<lambda>(temp_root, s).
     bind_err (apply_formula s temp_root (pattern_condition pat)) (\<lambda>s1.
     case negation_mode of
       POST_PROCESSING \<Rightarrow> create_PostProcessing_Tree (s1\<lparr>root := temp_root\<rparr>) temp_root pat
     | FIRST_CHANCE \<Rightarrow> create_FirstChanceNegation_Tree (s1\<lparr>root := temp_root\<rparr>) pat))"

section \<open>The evaluation mechanism\<close>

text \<open>
  Modelled from the spec: \<^verbatim>\<open>misc/IOUtils.py\<close> is not among the sources.  The output stream
  collects the items added to it and counts how often it was closed; a pattern match is the
  list of its events.
\<close>

record Stream =
  items :: "Event list list"
  closed :: nat

definition add_item :: "Stream \<Rightarrow> Event list \<Rightarrow> Stream" where
  "add_item st x = st\<lparr>items := items st @ [x]\<rparr>"

definition close :: "Stream \<Rightarrow> Stream" where
  "close st = st\<lparr>closed := Suc (closed st)\<rparr>"

text \<open>\<^verbatim>\<open>Tree.get_matches\<close>, consumed by the loop of \<^verbatim>\<open>eval\<close> that adds each match to the output.\<close>

function get_matches :: "Tree \<Rightarrow> Stream \<Rightarrow> error + Tree \<times> Stream" where
  "get_matches s matches =
     (case get_node s (root s) of
        Inl e \<Rightarrow> Inl e
      | Inr n \<Rightarrow>
          if has_partial_matches n then
            (case consume_first_partial_match n of
               Inl e \<Rightarrow> Inl e
             | Inr (pm, n') \<Rightarrow> get_matches (set_node s (root s) n') (add_item matches (events pm)))
          else Inr (s, matches))"
  by pat_completeness auto
termination
  by (relation "measure (\<lambda>(s, matches). length (partial_matches (nodes s ! root s)))")
     (auto simp: get_node_def set_node_def consume_first_partial_match_def
        split: if_splits list.splits)

declare get_matches.simps [simp del]

definition handle_EOF :: "Tree \<Rightarrow> Stream \<Rightarrow> error + Stream" where
  "handle_EOF s matches =
     bind_err (get_node s (root s)) (\<lambda>root_node.
     let matches = foldl add_item matches (map events (matches_to_handle_at_EOF root_node)) in
     bind_err (get_first_last_negative_node s (root s)) (\<lambda>node.
     bind_err (get_node s node) (\<lambda>n.
     Inr (foldl add_item matches (map events (waiting_for_time_out n))))))"

fun leaves_loop :: "nat \<Rightarrow> Tree \<Rightarrow> Event \<Rightarrow> nat list \<Rightarrow> Stream \<Rightarrow> error + Tree \<times> Stream" where
  "leaves_loop fuel s event [] matches = Inr (s, matches)"
| "leaves_loop fuel s event (leaf # rest) matches =
     (case handle_event fuel s leaf event of
        Inl e \<Rightarrow> Inl e
      | Inr s1 \<Rightarrow>
          (case get_matches s1 matches of
             Inl e \<Rightarrow> Inl e
           | Inr (s2, matches') \<Rightarrow> leaves_loop fuel s2 event rest matches'))"

fun events_loop ::
  "nat \<Rightarrow> Tree \<Rightarrow> (string \<times> nat) list \<Rightarrow> Event list \<Rightarrow> Stream \<Rightarrow> error + Tree \<times> Stream" where
  "events_loop fuel s listeners [] matches = Inr (s, matches)"
| "events_loop fuel s listeners (event # rest) matches =
     (case leaves_loop fuel s event
             (map snd (filter (\<lambda>l. fst l = event_type event) listeners)) matches of
        Inl e \<Rightarrow> Inl e
      | Inr (s1, matches') \<Rightarrow> events_loop fuel s1 listeners rest matches')"

fun register_listeners :: "Tree \<Rightarrow> nat list \<Rightarrow> error + (string \<times> nat) list" where
  "register_listeners s [] = Inr []"
| "register_listeners s (leaf # rest) =
     (case get_node s leaf of
        Inl e \<Rightarrow> Inl e
      | Inr n \<Rightarrow>
          (case register_listeners s rest of
             Inl e \<Rightarrow> Inl e
           | Inr ls \<Rightarrow> Inr ((leaf_event_type n, leaf) # ls)))"

text \<open>The end of \<^verbatim>\<open>eval\<close>, after the loop over the events.\<close>

definition end_of_stream :: "Tree \<Rightarrow> Stream \<Rightarrow> error + Stream" where
  "end_of_stream s matches =
     bind_err (get_node s (root s)) (\<lambda>root_node.
     bind_err (if is_negation_node root_node \<and> is_last root_node
               then handle_EOF s matches else Inr matches) (\<lambda>matches'.
     Inr (close matches')))"

definition eval :: "nat \<Rightarrow> Tree \<Rightarrow> Event list \<Rightarrow> Stream \<Rightarrow> error + Tree \<times> Stream" where
  "eval fuel s events_stream matches =
     bind_err (get_leaves s (root s)) (\<lambda>leaves.
     bind_err (register_listeners s leaves) (\<lambda>event_types_listeners.
     bind_err (events_loop fuel s event_types_listeners events_stream matches) (\<lambda>(s1, matches1).
     bind_err (end_of_stream s1 matches1) (\<lambda>matches2.
     Inr (s1, matches2)))))"

text \<open>
  \<^verbatim>\<open>TreeBasedEvaluationMechanism(pattern, tree_structure, params).eval(events, matches)\<close> on a
  new output stream: the tree is built, the events are evaluated, the output stream is the
  result.
\<close>

definition TreeBasedEvaluationMechanism_eval ::
  "nat \<Rightarrow> tree_structure \<Rightarrow> Pattern \<Rightarrow> NegationMode \<Rightarrow> Event list \<Rightarrow> error + Stream" where
  "TreeBasedEvaluationMechanism_eval fuel structure pat negation_mode events_stream =
     bind_err (Tree_init structure pat negation_mode) (\<lambda>s.
     bind_err (eval fuel s events_stream \<lparr>items = [], closed = 0\<rparr>) (\<lambda>(s', matches).
     Inr matches))"

section \<open>Example values\<close>

text \<open>A partial match of one event of type \<open>A\<close>, with a given identity and timestamp.\<close>

definition example_pm :: "nat \<Rightarrow> int \<Rightarrow> PartialMatch" where
  "example_pm oid t =
     \<lparr>pm_id = oid, events = [\<lparr>event_type = ''A'', timestamp = t, payload = []\<rparr>],
      first_timestamp = t, last_timestamp = t\<rparr>"

text \<open>An event without attributes.\<close>

definition example_event :: "string \<Rightarrow> int \<Rightarrow> Event" where
  "example_event ty t = \<lparr>event_type = ty, timestamp = t, payload = []\<rparr>"

text \<open>
  The pattern \<^verbatim>\<open>SEQ(NOT A a, B b)\<close> within a window of 5, with the condition \<^verbatim>\<open>0 == 0\<close>.
\<close>

definition leading_negation_pattern :: Pattern where
  "leading_negation_pattern =
     \<lparr>pattern_operator = SeqOperator,
      origin_args =
        [\<lparr>negated = True, qitem = \<lparr>q_event_type = ''A'', q_name = ''a'', q_index = 0\<rparr>\<rparr>,
         \<lparr>negated = False, qitem = \<lparr>q_event_type = ''B'', q_name = ''b'', q_index = 1\<rparr>\<rparr>],
      pattern_condition = EqFormula (AtomicTerm 0) (AtomicTerm 0),
      window = Timedelta 5\<rparr>"



section \<open>Reference functions used in the proofs\<close>

text \<open>
  The usual two-way merge on lists, taking from the second list on equal keys.  The loops of
  \<open>merge\<close> and \<open>merge_according_to\<close> are shown to compute it.
\<close>

fun merge_spec :: "('a \<Rightarrow> 'k::linorder) \<Rightarrow> 'a list \<Rightarrow> 'a list \<Rightarrow> 'a list" where
  "merge_spec key [] ys = ys"
| "merge_spec key (x # xs) [] = x # xs"
| "merge_spec key (x # xs) (y # ys) =
     (if key x < key y then x # merge_spec key xs (y # ys) else y # merge_spec key (x # xs) ys)"

section \<open>Binary search: \<open>find_partial_match_by_timestamp\<close>\<close>

lemma sorted_count_less:
  "sorted (map f xs) \<Longrightarrow> i < length xs \<Longrightarrow>
     (f (xs ! i) < (ts::int)) = (i < length (filter (\<lambda>x. f x < ts) xs))"
proof (induction xs arbitrary: i)
  case Nil
  then show ?case by simp
next
  case (Cons x xs)
  show ?case
  proof (cases "f x < ts")
    case True
    with Cons show ?thesis by (cases i) auto
  next
    case False
    with Cons.prems have all: "\<forall>y\<in>set xs. \<not> f y < ts" by fastforce
    then have "filter (\<lambda>x. f x < ts) xs = []" by (simp add: filter_empty_conv)
    with False Cons.prems all show ?thesis by (cases i) auto
  qed
qed

lemma py_index_nonneg: "0 \<le> i \<Longrightarrow> i < int (length xs) \<Longrightarrow> py_index xs i = Inr (xs ! nat i)"
  by (simp add: py_index_def)

lemma py_index_minus_one: "xs \<noteq> [] \<Longrightarrow> py_index xs (-1) = Inr (last xs)"
  by (cases xs rule: rev_cases) (auto simp: py_index_def nth_append)

lemma find_loop_count:
  assumes srt: "sorted (map first_timestamp pms)"
  shows "0 \<le> start \<Longrightarrow> end' < int (length pms) \<Longrightarrow>
     start \<le> int (length (filter (\<lambda>p. first_timestamp p < ts) pms)) \<Longrightarrow>
     int (length (filter (\<lambda>p. first_timestamp p < ts) pms)) \<le> end' \<Longrightarrow>
     1 \<le> length (filter (\<lambda>p. first_timestamp p < ts) pms) \<Longrightarrow>
     find_loop pms ts start end' = Inr (int (length (filter (\<lambda>p. first_timestamp p < ts) pms)))"
  using srt
proof (induction pms ts start end' rule: find_loop.induct)
  case (1 pms ts start end')
  define k where "k = length (filter (\<lambda>p. first_timestamp p < ts) pms)"
  define mid where "mid = (start + end') div 2"
  have se: "start \<le> end'" using "1.prems" by simp
  have mid_range: "start \<le> mid" "mid \<le> end'" "0 \<le> mid" "mid < int (length pms)"
    using se "1.prems" by (auto simp: mid_def)
  have key: "(first_timestamp (pms ! i) < ts) = (i < k)" if "i < length pms" for i
    unfolding k_def by (rule sorted_count_less[OF "1.prems"(6) that])
  have im: "py_index pms mid = Inr (pms ! nat mid)"
    using mid_range by (simp add: py_index_nonneg)
  have midk: "(first_timestamp (pms ! nat mid) < ts) = (nat mid < k)"
    using key[of "nat mid"] mid_range by simp
  have k1: "1 \<le> k" "int k \<le> end'" "start \<le> int k" using "1.prems" by (simp_all add: k_def)
  have ne: "pms \<noteq> []" using mid_range by auto
  have prev: "py_index pms (mid - 1) = Inr (if mid = 0 then last pms else pms ! nat (mid - 1))"
    using mid_range py_index_minus_one[OF ne] by (auto simp: py_index_nonneg)
  have lastge: "\<not> first_timestamp (last pms) < ts"
  proof -
    have "\<not> (length pms - 1 < k)" using k1 "1.prems"(2) by linarith
    moreover have "length pms - 1 < length pms" using ne by simp
    ultimately show ?thesis using key[of "length pms - 1"] ne by (simp add: last_conv_nth)
  qed
  have prevk: "(first_timestamp (pms ! nat (mid - 1)) < ts) = (nat (mid - 1) < k)" if "mid \<noteq> 0"
    using key[of "nat (mid - 1)"] mid_range that by simp
  consider (found) "nat mid = k" | (right) "nat mid < k" | (left) "k < nat mid" by linarith
  then show ?case
  proof cases
    case found
    then have "mid \<noteq> 0" using k1 by auto
    then have "first_timestamp (pms ! nat (mid - 1)) < ts" using prevk found mid_range by auto
    moreover have "\<not> first_timestamp (pms ! nat mid) < ts" using midk found by simp
    ultimately show ?thesis
      using se im prev \<open>mid \<noteq> 0\<close> found mid_range
      by (subst find_loop.simps) (simp add: mid_def[symmetric] Let_def k_def[symmetric])
  next
    case right
    then have lt: "first_timestamp (pms ! nat mid) < ts" using midk by simp
    have step: "find_loop pms ts start end' = find_loop pms ts (mid + 1) end'"
      using se im prev lt lastge
      by (subst find_loop.simps) (auto simp add: mid_def[symmetric] Let_def)
    have "find_loop pms ts (mid + 1) end' = Inr (int k)"
      unfolding k_def
    proof (rule "1.IH"(1)[OF se mid_def im refl prev])
      show "\<not> (first_timestamp (if mid = 0 then last pms else pms ! nat (mid - 1)) < ts \<and>
               ts \<le> first_timestamp (pms ! nat mid))" using lt by simp
      show "first_timestamp (pms ! nat mid) < ts" by (rule lt)
      show "0 \<le> mid + 1" using mid_range by simp
      show "end' < int (length pms)" using "1.prems" by simp
      show "mid + 1 \<le> int (length (filter (\<lambda>p. first_timestamp p < ts) pms))"
        using right mid_range by (simp add: k_def)
      show "int (length (filter (\<lambda>p. first_timestamp p < ts) pms)) \<le> end'"
        using k1 by (simp add: k_def)
      show "1 \<le> length (filter (\<lambda>p. first_timestamp p < ts) pms)" using k1 by (simp add: k_def)
      show "sorted (map first_timestamp pms)" by (rule "1.prems"(6))
    qed
    with step show ?thesis by (simp add: k_def)
  next
    case left
    then have ge: "\<not> first_timestamp (pms ! nat mid) < ts" using midk by simp
    have m0: "mid \<noteq> 0" using left by auto
    have pge: "\<not> first_timestamp (pms ! nat (mid - 1)) < ts"
      using prevk[OF m0] left mid_range by auto
    have step: "find_loop pms ts start end' = find_loop pms ts start (mid - 1)"
      using se im prev ge pge m0
      by (subst find_loop.simps) (auto simp add: mid_def[symmetric] Let_def)
    have "find_loop pms ts start (mid - 1) = Inr (int k)"
      unfolding k_def
    proof (rule "1.IH"(2)[OF se mid_def im refl prev])
      show "\<not> (first_timestamp (if mid = 0 then last pms else pms ! nat (mid - 1)) < ts \<and>
               ts \<le> first_timestamp (pms ! nat mid))" using pge m0 by simp
      show "\<not> first_timestamp (pms ! nat mid) < ts" by (rule ge)
      show "0 \<le> start" using "1.prems" by simp
      show "mid - 1 < int (length pms)" using mid_range by simp
      show "start \<le> int (length (filter (\<lambda>p. first_timestamp p < ts) pms))"
        using k1 by (simp add: k_def)
      show "int (length (filter (\<lambda>p. first_timestamp p < ts) pms)) \<le> mid - 1"
        using left mid_range by (simp add: k_def)
      show "1 \<le> length (filter (\<lambda>p. first_timestamp p < ts) pms)" using k1 by (simp add: k_def)
      show "sorted (map first_timestamp pms)" by (rule "1.prems"(6))
    qed
    with step show ?thesis by (simp add: k_def)
  qed
qed

lemma filter_less_empty_hd:
  "sorted (map f xs) \<Longrightarrow> xs \<noteq> [] \<Longrightarrow> \<not> f (hd xs) < (ts::int) \<Longrightarrow>
     filter (\<lambda>x. f x < ts) xs = []"
  by (cases xs) (fastforce simp: filter_empty_conv)+

lemma filter_less_all_last:
  "sorted (map f xs) \<Longrightarrow> xs \<noteq> [] \<Longrightarrow> f (last xs) < (ts::int) \<Longrightarrow>
     filter (\<lambda>x. f x < ts) xs = xs"
proof -
  assume a: "sorted (map f xs)" "xs \<noteq> []" "f (last xs) < ts"
  have "f x < ts" if "x \<in> set xs" for x
  proof -
    from that obtain i where i: "i < length xs" "xs ! i = x" by (metis in_set_conv_nth)
    have "map f xs ! i \<le> map f xs ! (length xs - 1)"
      using a(1,2) i(1) by (intro sorted_nth_mono) auto
    then show ?thesis using a i by (simp add: last_conv_nth)
  qed
  then show ?thesis by (simp add: filter_id_conv)
qed

lemma find_partial_match_by_timestamp_count:
  assumes srt: "sorted (map first_timestamp pms)"
  shows "find_partial_match_by_timestamp pms ts =
           Inr (int (length (filter (\<lambda>pm. first_timestamp pm < ts) pms)))"
proof -
  let ?k = "length (filter (\<lambda>pm. first_timestamp pm < ts) pms)"
  consider (empty) "pms = []"
    | (first) "pms \<noteq> []" "\<not> first_timestamp (hd pms) < ts"
    | (single) "length pms = 1" "first_timestamp (hd pms) < ts"
    | (all) "length pms > 1" "first_timestamp (hd pms) < ts" "first_timestamp (last pms) < ts"
    | (search) "length pms > 1" "first_timestamp (hd pms) < ts"
        "\<not> first_timestamp (last pms) < ts"
  proof -
    have "length pms = 0 \<or> length pms = 1 \<or> length pms > 1" by linarith
    then show ?thesis using that by fastforce
  qed
  then show ?thesis
  proof cases
    case empty
    then show ?thesis by (simp add: find_partial_match_by_timestamp_def)
  next
    case first
    then show ?thesis
      using filter_less_empty_hd[OF srt first]
      by (simp add: find_partial_match_by_timestamp_def Let_def)
  next
    case single
    then obtain p where "pms = [p]" by (cases pms) auto
    with single show ?thesis by (simp add: find_partial_match_by_timestamp_def)
  next
    case all
    then have ne: "pms \<noteq> []" by auto
    show ?thesis
      using all filter_less_all_last[OF srt ne all(3)]
      by (simp add: find_partial_match_by_timestamp_def Let_def)
  next
    case search
    then have ne: "pms \<noteq> []" by auto
    have k0: "0 < ?k"
      using sorted_count_less[OF srt, of 0 ts] ne search(2) by (simp add: hd_conv_nth)
    have klast: "\<not> (length pms - 1 < ?k)"
      using sorted_count_less[OF srt, of "length pms - 1" ts] ne search(3)
      by (simp add: last_conv_nth)
    have lp: "0 < length pms" using ne by simp
    have k1: "1 \<le> ?k" using k0 by linarith
    have kl: "int ?k \<le> int (length pms) - 1" using klast lp by linarith
    have "find_loop pms ts 0 (int (length pms) - 1) = Inr (int ?k)"
      by (rule find_loop_count[OF srt _ _ _ kl k1]) simp_all
    then show ?thesis
      using search by (simp add: find_partial_match_by_timestamp_def Let_def)
  qed
qed

text \<open>
  Claim C9.  On a list sorted by \<open>first_timestamp\<close> the binary search returns (it is a
  total function whose result is never the exception of its last line) the number of
  elements whose \<open>first_timestamp\<close> is strictly below the given timestamp; that number is
  the first index whose \<open>first_timestamp\<close> is at or above the timestamp.
\<close>

theorem find_partial_match_by_timestamp_sorted:
  assumes "sorted (map first_timestamp pms)"
  shows "find_partial_match_by_timestamp pms ts =
           Inr (int (length (filter (\<lambda>pm. first_timestamp pm < ts) pms)))
       \<and> (\<forall>i < length pms.
             (first_timestamp (pms ! i) < ts) =
             (i < length (filter (\<lambda>pm. first_timestamp pm < ts) pms)))"
  using find_partial_match_by_timestamp_count[OF assms] sorted_count_less[OF assms]
  by blast

theorem find_partial_match_by_timestamp_sorted_witness:
  "sorted (map first_timestamp
     [\<lparr>pm_id = 0, events = [], first_timestamp = 1, last_timestamp = 1\<rparr>,
      \<lparr>pm_id = 1, events = [], first_timestamp = 3, last_timestamp = 3\<rparr>,
      \<lparr>pm_id = 2, events = [], first_timestamp = 3, last_timestamp = 4\<rparr>,
      \<lparr>pm_id = 3, events = [], first_timestamp = 7, last_timestamp = 7\<rparr>])
   \<and> find_partial_match_by_timestamp
     [\<lparr>pm_id = 0, events = [], first_timestamp = 1, last_timestamp = 1\<rparr>,
      \<lparr>pm_id = 1, events = [], first_timestamp = 3, last_timestamp = 3\<rparr>,
      \<lparr>pm_id = 2, events = [], first_timestamp = 3, last_timestamp = 4\<rparr>,
      \<lparr>pm_id = 3, events = [], first_timestamp = 7, last_timestamp = 7\<rparr>] 3 = Inr 1"
  using find_partial_match_by_timestamp_sorted[of
     "[\<lparr>pm_id = 0, events = [], first_timestamp = 1, last_timestamp = 1\<rparr>,
      \<lparr>pm_id = 1, events = [], first_timestamp = 3, last_timestamp = 3\<rparr>,
      \<lparr>pm_id = 2, events = [], first_timestamp = 3, last_timestamp = 4\<rparr>,
      \<lparr>pm_id = 3, events = [], first_timestamp = 7, last_timestamp = 7\<rparr>]" 3]
  by simp

section \<open>\<open>merge\<close> and \<open>merge_according_to\<close>\<close>

lemma merge_spec_Nil2 [simp]: "merge_spec key xs [] = xs"
  by (cases xs) simp_all

lemma append_rest_loop_drop:
  "len = length actual \<Longrightarrow> append_rest_loop len actual j ret = ret @ drop j actual"
proof (induction len actual j ret rule: append_rest_loop.induct)
  case (1 len actual j ret)
  show ?case
  proof (cases "j < len")
    case True
    then have "append_rest_loop len actual j ret = (ret @ [actual ! j]) @ drop (j + 1) actual"
      using 1 by (subst append_rest_loop.simps) simp
    also have "\<dots> = ret @ drop j actual"
      using True 1(2) by (simp add: Cons_nth_drop_Suc)
    finally show ?thesis .
  next
    case False
    then show ?thesis using 1(2) by (subst append_rest_loop.simps) simp
  qed
qed

lemma merge_main_loop_spec:
  "i = i1 + i2 \<Longrightarrow> new_len = length arr1 + length arr2 \<Longrightarrow>
   (case merge_main_loop arr1 arr2 key new_len i i1 i2 ret of
      (i', i1', i2', ret') \<Rightarrow>
        append_rest_loop (length arr2) arr2 i2' (append_rest_loop (length arr1) arr1 i1' ret'))
   = ret @ merge_spec key (drop i1 arr1) (drop i2 arr2)"
proof (induction arr1 arr2 key new_len i i1 i2 ret rule: merge_main_loop.induct)
  case (1 arr1 arr2 key new_len i i1 i2 ret)
  show ?case
  proof (cases "i1 < length arr1 \<and> i2 < length arr2")
    case True
    then have guard: "i < new_len \<and> i1 < length arr1 \<and> i2 < length arr2"
      using "1.prems" by simp
    have d1: "drop i1 arr1 = arr1 ! i1 # drop (Suc i1) arr1"
      and d2: "drop i2 arr2 = arr2 ! i2 # drop (Suc i2) arr2"
      using True by (simp_all add: Cons_nth_drop_Suc)
    show ?thesis
    proof (cases "key (arr1 ! i1) < key (arr2 ! i2)")
      case lt: True
      have step: "merge_main_loop arr1 arr2 key new_len i i1 i2 ret =
          merge_main_loop arr1 arr2 key new_len (i + 1) (i1 + 1) i2 (ret @ [arr1 ! i1])"
        using guard lt by (subst merge_main_loop.simps) simp
      have "merge_spec key (arr1 ! i1 # drop (Suc i1) arr1) (arr2 ! i2 # drop (Suc i2) arr2) =
          arr1 ! i1 # merge_spec key (drop (Suc i1) arr1) (arr2 ! i2 # drop (Suc i2) arr2)"
        using lt by simp
      then have spec: "merge_spec key (drop i1 arr1) (drop i2 arr2) =
          arr1 ! i1 # merge_spec key (drop (i1 + 1) arr1) (drop i2 arr2)"
        using d1 d2 by simp
      show ?thesis
        unfolding step spec using "1.IH"(1)[OF guard lt] "1.prems" by simp
    next
      case ge: False
      have step: "merge_main_loop arr1 arr2 key new_len i i1 i2 ret =
          merge_main_loop arr1 arr2 key new_len (i + 1) i1 (i2 + 1) (ret @ [arr2 ! i2])"
        using guard ge by (subst merge_main_loop.simps) simp
      have "merge_spec key (arr1 ! i1 # drop (Suc i1) arr1) (arr2 ! i2 # drop (Suc i2) arr2) =
          arr2 ! i2 # merge_spec key (arr1 ! i1 # drop (Suc i1) arr1) (drop (Suc i2) arr2)"
        using ge by simp
      then have spec: "merge_spec key (drop i1 arr1) (drop i2 arr2) =
          arr2 ! i2 # merge_spec key (drop i1 arr1) (drop (i2 + 1) arr2)"
        using d1 d2 by simp
      show ?thesis
        unfolding step spec using "1.IH"(2)[OF guard ge] "1.prems" by simp
    qed
  next
    case False
    then show ?thesis
      by (subst merge_main_loop.simps) (auto simp: append_rest_loop_drop)
  qed
qed

lemma merge_eq_spec: "merge arr1 arr2 key = merge_spec key arr1 arr2"
  using merge_main_loop_spec[of 0 0 0 "length arr1 + length arr2" arr1 arr2 key "[]"]
  by (simp add: merge_def Let_def split: prod.splits)

lemma merge_according_to_main_loop_spec:
  "i = i1 + i2 \<Longrightarrow> new_len = length arr1 + length arr2 \<Longrightarrow>
   length arr1 = length actual1 \<Longrightarrow> length arr2 = length actual2 \<Longrightarrow>
   (case merge_according_to_main_loop arr1 arr2 actual1 actual2 key new_len i i1 i2 ret of
      (i', i1', i2', ret') \<Rightarrow>
        append_rest_loop (length arr2) actual2 i2'
          (append_rest_loop (length arr1) actual1 i1' ret'))
   = ret @ map snd (merge_spec (\<lambda>p. key (fst p)) (drop i1 (zip arr1 actual1)) (drop i2 (zip arr2 actual2)))"
proof (induction arr1 arr2 actual1 actual2 key new_len i i1 i2 ret
        rule: merge_according_to_main_loop.induct)
  case (1 arr1 arr2 actual1 actual2 key new_len i i1 i2 ret)
  show ?case
  proof (cases "i1 < length arr1 \<and> i2 < length arr2")
    case True
    then have guard: "i < new_len \<and> i1 < length arr1 \<and> i2 < length arr2"
      using "1.prems" by simp
    have d1: "drop i1 (zip arr1 actual1) = (arr1 ! i1, actual1 ! i1) # drop (Suc i1) (zip arr1 actual1)"
      and d2: "drop i2 (zip arr2 actual2) = (arr2 ! i2, actual2 ! i2) # drop (Suc i2) (zip arr2 actual2)"
      using True "1.prems" by (simp_all add: Cons_nth_drop_Suc[symmetric])
    show ?thesis
    proof (cases "key (arr1 ! i1) < key (arr2 ! i2)")
      case lt: True
      have step: "merge_according_to_main_loop arr1 arr2 actual1 actual2 key new_len i i1 i2 ret =
          merge_according_to_main_loop arr1 arr2 actual1 actual2 key new_len (i + 1) (i1 + 1) i2
            (ret @ [actual1 ! i1])"
        using guard lt by (subst merge_according_to_main_loop.simps) simp
      have "merge_spec (\<lambda>p. key (fst p)) ((arr1 ! i1, actual1 ! i1) # drop (Suc i1) (zip arr1 actual1))
            ((arr2 ! i2, actual2 ! i2) # drop (Suc i2) (zip arr2 actual2)) =
          (arr1 ! i1, actual1 ! i1) # merge_spec (\<lambda>p. key (fst p)) (drop (Suc i1) (zip arr1 actual1))
            ((arr2 ! i2, actual2 ! i2) # drop (Suc i2) (zip arr2 actual2))"
        using lt by simp
      then have spec: "merge_spec (\<lambda>p. key (fst p)) (drop i1 (zip arr1 actual1)) (drop i2 (zip arr2 actual2)) =
          (arr1 ! i1, actual1 ! i1) #
            merge_spec (\<lambda>p. key (fst p)) (drop (i1 + 1) (zip arr1 actual1)) (drop i2 (zip arr2 actual2))"
        using d1 d2 by simp
      show ?thesis
        unfolding step spec using "1.IH"(1)[OF guard lt] "1.prems" by simp
    next
      case ge: False
      have step: "merge_according_to_main_loop arr1 arr2 actual1 actual2 key new_len i i1 i2 ret =
          merge_according_to_main_loop arr1 arr2 actual1 actual2 key new_len (i + 1) i1 (i2 + 1)
            (ret @ [actual2 ! i2])"
        using guard ge by (subst merge_according_to_main_loop.simps) simp
      have "merge_spec (\<lambda>p. key (fst p)) ((arr1 ! i1, actual1 ! i1) # drop (Suc i1) (zip arr1 actual1))
            ((arr2 ! i2, actual2 ! i2) # drop (Suc i2) (zip arr2 actual2)) =
          (arr2 ! i2, actual2 ! i2) # merge_spec (\<lambda>p. key (fst p))
            ((arr1 ! i1, actual1 ! i1) # drop (Suc i1) (zip arr1 actual1))
            (drop (Suc i2) (zip arr2 actual2))"
        using ge by simp
      then have spec: "merge_spec (\<lambda>p. key (fst p)) (drop i1 (zip arr1 actual1)) (drop i2 (zip arr2 actual2)) =
          (arr2 ! i2, actual2 ! i2) #
            merge_spec (\<lambda>p. key (fst p)) (drop i1 (zip arr1 actual1)) (drop (i2 + 1) (zip arr2 actual2))"
        using d1 d2 by simp
      show ?thesis
        unfolding step spec using "1.IH"(2)[OF guard ge] "1.prems" by simp
    qed
  next
    case False
    then show ?thesis using "1.prems"
      by (subst merge_according_to_main_loop.simps)
         (auto simp: append_rest_loop_drop drop_zip[symmetric] simp flip: drop_map)
  qed
qed

lemma merge_according_to_eq_spec:
  "length arr1 = length actual1 \<Longrightarrow> length arr2 = length actual2 \<Longrightarrow>
   merge_according_to arr1 arr2 actual1 actual2 key =
     Inr (map snd (merge_spec (\<lambda>p. key (fst p)) (zip arr1 actual1) (zip arr2 actual2)))"
  using merge_according_to_main_loop_spec[of 0 0 0 "length arr1 + length arr2" arr1 arr2
          actual1 actual2 key "[]"]
  by (simp add: merge_according_to_def Let_def split: prod.splits)

lemma mset_merge_spec: "mset (merge_spec key xs ys) = mset xs + mset ys"
  by (induction key xs ys rule: merge_spec.induct) simp_all

lemma set_merge_spec: "set (merge_spec key xs ys) = set xs \<union> set ys"
  by (induction key xs ys rule: merge_spec.induct) auto

lemma sorted_merge_spec:
  "sorted (map key xs) \<Longrightarrow> sorted (map key ys) \<Longrightarrow> sorted (map key (merge_spec key xs ys))"
  by (induction key xs ys rule: merge_spec.induct) (auto simp: set_merge_spec)

lemma map_snd_merge_spec_tagged:
  "map snd (merge_spec (key \<circ> snd) (map (Pair a) xs) (map (Pair b) ys)) = merge_spec key xs ys"
  by (induction key xs ys rule: merge_spec.induct) (simp_all add: comp_def)

lemma merge_spec_cross:
  fixes k :: "bool \<times> 'a \<Rightarrow> 'k::linorder"
  shows "sorted (map k ys) \<Longrightarrow> \<forall>x\<in>set xs. \<not> fst x \<Longrightarrow> \<forall>y\<in>set ys. fst y \<Longrightarrow>
   i < j \<Longrightarrow> j < length (merge_spec k xs ys) \<Longrightarrow>
   \<not> fst (merge_spec k xs ys ! i) \<Longrightarrow> fst (merge_spec k xs ys ! j) \<Longrightarrow>
   k (merge_spec k xs ys ! i) < k (merge_spec k xs ys ! j)"
proof (induction k xs ys arbitrary: i j rule: merge_spec.induct)
  case (1 k ys)
  then show ?case by (auto simp: all_set_conv_all_nth)
next
  case (2 k x xs)
  then show ?case by (auto simp: all_set_conv_all_nth)
next
  case (3 k x xs y ys)
  obtain j' where j: "j = Suc j'" using "3.prems"(4) by (cases j) auto
  show ?case
  proof (cases "k x < k y")
    case True
    let ?r = "merge_spec k xs (y # ys)"
    have r: "merge_spec k (x # xs) (y # ys) = x # ?r" using True by simp
    show ?thesis
    proof (cases i)
      case 0
      have "?r ! j' \<in> set ?r" using "3.prems"(5) r j by simp
      then have "?r ! j' \<in> set xs \<union> set (y # ys)" by (simp add: set_merge_spec)
      moreover have "fst (?r ! j')" using "3.prems"(7) r j by simp
      ultimately have "?r ! j' \<in> set (y # ys)" using "3.prems"(2) by auto
      then have "k y \<le> k (?r ! j')" using "3.prems"(1) by auto
      then show ?thesis using True r j 0 by simp
    next
      case (Suc i')
      show ?thesis
        using "3.IH"(1)[OF True, of i' j'] "3.prems" r j Suc by simp
    qed
  next
    case False
    let ?r = "merge_spec k (x # xs) ys"
    have r: "merge_spec k (x # xs) (y # ys) = y # ?r" using False by simp
    show ?thesis
    proof (cases i)
      case 0
      then show ?thesis using "3.prems" r by simp
    next
      case (Suc i')
      show ?thesis
        using "3.IH"(2)[OF False, of i' j'] "3.prems" r j Suc by simp
    qed
  qed
qed

text \<open>
  Claim C10.  For inputs sorted under the key, \<open>merge\<close> returns a permutation of the
  concatenation that is sorted under the key and has the summed length.  Tagging the
  elements with the list they come from (\<open>False\<close> the first, \<open>True\<close> the second) shows
  the order on ties: of two elements with equal keys, the one of the second list stands
  before the one of the first.  \<open>merge_according_to\<close> raises exactly when a list of
  definitions and its list of actual values differ in length, and otherwise weaves the
  actual values in the order \<open>merge\<close> gives their definitions.
\<close>

theorem merge_sorted_permutation_ties:
  fixes key :: "'a \<Rightarrow> 'k::linorder"
  assumes "sorted (map key arr1)" and "sorted (map key arr2)"
  shows "mset (merge arr1 arr2 key) = mset (arr1 @ arr2)
     \<and> sorted (map key (merge arr1 arr2 key))
     \<and> length (merge arr1 arr2 key) = length arr1 + length arr2
     \<and> map snd (merge (map (Pair False) arr1) (map (Pair True) arr2) (\<lambda>p. key (snd p)))
           = merge arr1 arr2 key
     \<and> (\<forall>i j. i < length (merge (map (Pair False) arr1) (map (Pair True) arr2) (\<lambda>p. key (snd p)))
            \<and> j < length (merge (map (Pair False) arr1) (map (Pair True) arr2) (\<lambda>p. key (snd p)))
            \<and> \<not> fst (merge (map (Pair False) arr1) (map (Pair True) arr2) (\<lambda>p. key (snd p)) ! i)
            \<and> fst (merge (map (Pair False) arr1) (map (Pair True) arr2) (\<lambda>p. key (snd p)) ! j)
            \<and> key (snd (merge (map (Pair False) arr1) (map (Pair True) arr2) (\<lambda>p. key (snd p)) ! i))
              = key (snd (merge (map (Pair False) arr1) (map (Pair True) arr2) (\<lambda>p. key (snd p)) ! j))
            \<longrightarrow> j < i)
     \<and> merge_according_to arr1 arr2 actual1 actual2 key =
           (if length arr1 \<noteq> length actual1 \<or> length arr2 \<noteq> length actual2
            then Inl Exception
            else Inr (map snd (merge (zip arr1 actual1) (zip arr2 actual2) (\<lambda>p. key (fst p)))))"
proof -
  let ?k = "\<lambda>p::bool \<times> 'a. key (snd p)"
  let ?r = "merge_spec ?k (map (Pair False) arr1) (map (Pair True) arr2)"
  have perm: "mset (merge arr1 arr2 key) = mset (arr1 @ arr2)"
    by (simp add: merge_eq_spec mset_merge_spec)
  have srt: "sorted (map key (merge arr1 arr2 key))"
    using assms by (simp add: merge_eq_spec sorted_merge_spec)
  have len: "length (merge arr1 arr2 key) = length arr1 + length arr2"
    using arg_cong[OF perm, of size] by simp
  have untag: "map snd ?r = merge arr1 arr2 key"
    using map_snd_merge_spec_tagged[of key False arr1 True arr2]
    by (simp add: merge_eq_spec comp_def)
  have s2: "sorted (map ?k (map (Pair True) arr2))"
    using assms(2) by (simp add: comp_def)
  have ties: "j < i" if "i < length ?r" "j < length ?r" "\<not> fst (?r ! i)" "fst (?r ! j)"
      "key (snd (?r ! i)) = key (snd (?r ! j))" for i j
  proof (rule ccontr)
    assume "\<not> j < i"
    moreover have "i \<noteq> j" using that(3,4) by auto
    ultimately have "i < j" by simp
    from merge_spec_cross[OF s2 _ _ this that(2) that(3) that(4)]
    have "?k (?r ! i) < ?k (?r ! j)" by auto
    then show False using that(5) by simp
  qed
  have acc: "merge_according_to arr1 arr2 actual1 actual2 key =
           (if length arr1 \<noteq> length actual1 \<or> length arr2 \<noteq> length actual2
            then Inl Exception
            else Inr (map snd (merge (zip arr1 actual1) (zip arr2 actual2) (\<lambda>p. key (fst p)))))"
    by (auto simp: merge_according_to_eq_spec merge_eq_spec) (simp_all add: merge_according_to_def)
  show ?thesis
    using perm srt len untag ties acc unfolding merge_eq_spec by blast
qed

theorem merge_sorted_permutation_ties_witness:
  "sorted (map (\<lambda>x. x) [1, 3 :: int]) \<and> sorted (map (\<lambda>x. x) [1, 2 :: int])
   \<and> mset (merge [1, 3 :: int] [1, 2 :: int] (\<lambda>x :: int. x)) = mset ([1, 3 :: int] @ [1, 2 :: int])
   \<and> length (merge [1, 3 :: int] [1, 2 :: int] (\<lambda>x :: int. x)) = 4
   \<and> merge_according_to [1, 3 :: int] [1, 2 :: int] [''a'', ''b''] [''c'', ''d''] (\<lambda>x :: int. x)
       = Inr (map snd (merge (zip [1, 3 :: int] [''a'', ''b'']) (zip [1, 2 :: int] [''c'', ''d''])
                (\<lambda>p. fst p)))
   \<and> merge_according_to [1, 3 :: int] [1, 2 :: int] [''a''] [''c'', ''d''] (\<lambda>x :: int. x) = Inl Exception"
proof -
  have s1: "sorted (map (\<lambda>x. x) [1, 3 :: int])" and s2: "sorted (map (\<lambda>x. x) [1, 2 :: int])"
    by simp_all
  note t1 = merge_sorted_permutation_ties[OF s1 s2, of "[''a'', ''b'']" "[''c'', ''d'']"]
  note t2 = merge_sorted_permutation_ties[OF s1 s2, of "[''a'']" "[''c'', ''d'']"]
  have a: "mset (merge [1, 3 :: int] [1, 2 :: int] (\<lambda>x :: int. x)) = mset ([1, 3 :: int] @ [1, 2 :: int])"
    using t1 by (rule conjunct1)
  have b: "length (merge [1, 3 :: int] [1, 2 :: int] (\<lambda>x :: int. x)) = 4"
    using t1[THEN conjunct2, THEN conjunct2, THEN conjunct1] by simp
  have c: "merge_according_to [1, 3 :: int] [1, 2 :: int] [''a'', ''b''] [''c'', ''d''] (\<lambda>x :: int. x)
       = Inr (map snd (merge (zip [1, 3 :: int] [''a'', ''b'']) (zip [1, 2 :: int] [''c'', ''d''])
                (\<lambda>p. fst p)))"
    using t1[THEN conjunct2, THEN conjunct2, THEN conjunct2, THEN conjunct2, THEN conjunct2]
    by simp
  have d: "merge_according_to [1, 3 :: int] [1, 2 :: int] [''a''] [''c'', ''d''] (\<lambda>x :: int. x) = Inl Exception"
    using t2[THEN conjunct2, THEN conjunct2, THEN conjunct2, THEN conjunct2, THEN conjunct2]
    by simp
  show ?thesis using s1 s2 a b c d by blast
qed

section \<open>The partial-match store\<close>

lemma slice_from_nat [simp]: "slice_from xs (int k) = drop k xs"
  by (simp add: slice_from_def)

lemma slice_to_nat [simp]: "slice_to xs (int k) = take k xs"
  by (simp add: slice_to_def)

lemma list_insert_nat [simp]: "list_insert xs (int k) x = take k xs @ x # drop k xs"
  by (simp add: list_insert_def)

lemma count_less_split:
  assumes "sorted (map f xs)" and "k = length (filter (\<lambda>x. f x < (ts::int)) xs)"
  shows "(\<forall>x\<in>set (take k xs). f x < ts) \<and> (\<forall>x\<in>set (drop k xs). ts \<le> f x)"
proof (intro conjI ballI)
  fix x assume "x \<in> set (take k xs)"
  then obtain i where i: "i < length (take k xs)" "take k xs ! i = x"
    by (metis in_set_conv_nth)
  then have "i < k" "i < length xs" "xs ! i = x" by auto
  then show "f x < ts" using sorted_count_less[OF assms(1), of i ts] assms(2) by simp
next
  fix x assume "x \<in> set (drop k xs)"
  then obtain i where i: "i < length (drop k xs)" "drop k xs ! i = x"
    by (metis in_set_conv_nth)
  then have "k + i < length xs" "xs ! (k + i) = x" by auto
  then show "ts \<le> f x" using sorted_count_less[OF assms(1), of "k + i" ts] assms(2) by auto
qed


lemma add_partial_match_sorted:
  assumes "sorted (map first_timestamp (partial_matches n))"
  shows "add_partial_match n pm =
    Inr (let k = length (filter (\<lambda>x. first_timestamp x < first_timestamp pm) (partial_matches n));
             n1 = n\<lparr>partial_matches := take k (partial_matches n) @ pm # drop k (partial_matches n)\<rparr>
         in if parent n \<noteq> None
            then n1\<lparr>unhandled_partial_matches := unhandled_partial_matches n @ [pm]\<rparr> else n1)"
  by (simp add: add_partial_match_def find_partial_match_by_timestamp_count[OF assms] Let_def)




lemma example_pm_sel [simp]:
  "first_timestamp (example_pm oid t) = t" "last_timestamp (example_pm oid t) = t"
  "pm_id (example_pm oid t) = oid"
  by (simp_all add: example_pm_def)

lemma example_pm_eq [simp]: "(example_pm i t = example_pm j u) = (i = j \<and> t = u)"
  by (auto simp: example_pm_def)

lemma Node_init_sel [simp]:
  "partial_matches (Node_init cls w par) = []"
  "parent (Node_init cls w par) = par"
  "sliding_window (Node_init cls w par) = w"
  "unhandled_partial_matches (Node_init cls w par) = []"
  by (simp_all add: Node_init_def)

text \<open>
  Claim C4, as the code has it.  On a store sorted by \<open>first_timestamp\<close>,
  \<open>add_partial_match\<close> succeeds and inserts the new match at the index the binary search
  returns: after every entry with a strictly smaller \<open>first_timestamp\<close> and before every
  entry whose \<open>first_timestamp\<close> is equal or greater.  A new match therefore stands before
  the existing entries with an equal key, not after them.
\<close>

theorem add_partial_match_before_equal_keys:
  assumes "sorted (map first_timestamp (partial_matches n))"
  shows "\<exists>n' k. add_partial_match n pm = Inr n'
      \<and> partial_matches n' = take k (partial_matches n) @ pm # drop k (partial_matches n)
      \<and> (\<forall>x\<in>set (take k (partial_matches n)). first_timestamp x < first_timestamp pm)
      \<and> (\<forall>x\<in>set (drop k (partial_matches n)). first_timestamp pm \<le> first_timestamp x)"
proof -
  let ?pms = "partial_matches n"
  let ?k = "length (filter (\<lambda>x. first_timestamp x < first_timestamp pm) ?pms)"
  let ?n1 = "n\<lparr>partial_matches := take ?k ?pms @ pm # drop ?k ?pms\<rparr>"
  let ?n' = "if parent n \<noteq> None
      then ?n1\<lparr>unhandled_partial_matches := unhandled_partial_matches n @ [pm]\<rparr> else ?n1"
  have a: "add_partial_match n pm = Inr ?n'"
    by (simp add: add_partial_match_sorted[OF assms] Let_def)
  have b: "partial_matches ?n' = take ?k ?pms @ pm # drop ?k ?pms" by simp
  note c = count_less_split[OF assms refl, of "first_timestamp pm"]
  show ?thesis
    apply (rule exI[of _ ?n'])
    apply (rule exI[of _ ?k])
    apply (intro conjI)
       apply (rule a)
      apply (rule b)
     apply (rule c[THEN conjunct1])
    apply (rule c[THEN conjunct2])
    done
qed

theorem add_partial_match_before_equal_keys_witness:
  "sorted (map first_timestamp
     (partial_matches ((Node_init LeafNode (Timedelta 10) None)\<lparr>partial_matches := [example_pm 0 5]\<rparr>)))
   \<and> (\<exists>n' k. add_partial_match
          ((Node_init LeafNode (Timedelta 10) None)\<lparr>partial_matches := [example_pm 0 5]\<rparr>)
          (example_pm 1 5) = Inr n'
        \<and> partial_matches n' = take k [example_pm 0 5] @ example_pm 1 5 # drop k [example_pm 0 5]
        \<and> (\<forall>x\<in>set (take k [example_pm 0 5]). first_timestamp x < 5)
        \<and> (\<forall>x\<in>set (drop k [example_pm 0 5]). 5 \<le> first_timestamp x))"
proof -
  have s: "sorted (map first_timestamp
     (partial_matches ((Node_init LeafNode (Timedelta 10) None)\<lparr>partial_matches := [example_pm 0 5]\<rparr>)))"
    by simp
  from add_partial_match_before_equal_keys[OF s, of "example_pm 1 5"] s
  show ?thesis by simp
qed

text \<open>
  The claim as stated fails: with one stored match of \<open>first_timestamp\<close> 5, a new match
  of \<open>first_timestamp\<close> 5 is inserted at position 0, before the stored one.
\<close>

theorem add_partial_match_after_equal_keys_counterexample:
  "first_timestamp (example_pm 0 5) = first_timestamp (example_pm 1 5)
   \<and> add_partial_match
       ((Node_init LeafNode (Timedelta 10) None)\<lparr>partial_matches := [example_pm 0 5]\<rparr>)
       (example_pm 1 5)
     = Inr ((Node_init LeafNode (Timedelta 10) None)
              \<lparr>partial_matches := [example_pm 1 5, example_pm 0 5]\<rparr>)"
  by (simp add: add_partial_match_sorted Let_def)



section \<open>The two negation modes\<close>

text \<open>
  Claim C1.  The two negation modes do not always emit the same matches.  For the pattern
  \<^verbatim>\<open>SEQ(NOT A a, B b)\<close> within 5 and the stream \<open>A@0, B@3, B@6\<close>, \<^verbatim>\<open>POST_PROCESSING\<close> emits
  \<open>B@6\<close> alone; \<^verbatim>\<open>FIRST_CHANCE\<close> blocks \<open>B@3\<close>, unblocks it when the event at 6 expires
  \<open>A@0\<close>, and emits it, although \<open>A@0\<close> lies within the window before it: the threshold that
  is to stop an unblocked match is set on the root, a \<^verbatim>\<open>FirstChanceNode\<close>, whose handler
  never tests it.
\<close>

theorem negation_modes_disagree_after_unblocking:
  "TreeBasedEvaluationMechanism_eval 5 (Index 0) leading_negation_pattern POST_PROCESSING
     [example_event ''A'' 0, example_event ''B'' 3, example_event ''B'' 6]
     = Inr \<lparr>items = [[example_event ''B'' 6]], closed = 1\<rparr>
   \<and> TreeBasedEvaluationMechanism_eval 5 (Index 0) leading_negation_pattern FIRST_CHANCE
     [example_event ''A'' 0, example_event ''B'' 3, example_event ''B'' 6]
     = Inr \<lparr>items = [[example_event ''B'' 3], [example_event ''B'' 6]], closed = 1\<rparr>"
  by code_simp

section \<open>\<open>LeafNode.handle_event\<close>\<close>

lemma get_node_next_pm_id [simp]: "get_node (s\<lparr>next_pm_id := k\<rparr>) i = get_node s i"
  by (simp add: get_node_def)

lemma get_node_Inr: "get_node s i = Inr n \<Longrightarrow> i < length (nodes s) \<and> nodes s ! i = n"
  by (auto simp: get_node_def split: if_splits)




end
